theory Spec2Isabelle
  imports Main "HOL-Library.Word" "HOL-Library.AList"
begin

section \<open>HTTP message signatures of the agentic-commerce backend and MCP server\<close>

text \<open>
  The development embeds \<^verbatim>\<open>src/backend/middleware.js\<close> (the verifier and the agent
  registry) and \<^verbatim>\<open>src/mcp-server/signature.js\<close> (the signer and the keypair
  generator).

  Strings. A JavaScript string is a sequence of code units; the values the verifier reads
  (header values, the host, the URL) reach Node as Latin-1 strings, one code unit per
  byte, so a code unit is modelled as a HOL \<^typ>\<open>char\<close> and a string as a
  \<^typ>\<open>string\<close>. Within that range the line terminators of a regular expression's
  \<^verbatim>\<open>.\<close> are LF and CR, and the white space of \<^verbatim>\<open>trim\<close> and \<^verbatim>\<open>parseInt\<close> is
  TAB, LF, VT, FF, CR, SP and NBSP. The arguments of the signer (authority, path, key
  identifier) are strings of the same range, code units up to \<open>0xFF\<close>: what is
  proved of the signer is proved of those. Beyond the range JavaScript has further line
  terminators (U+2028, U+2029) and further white space (U+FEFF and the Unicode spaces),
  which the model does not have.

  Numbers. \<^verbatim>\<open>parseInt\<close> and the clock give integers; they are modelled as
  \<^typ>\<open>int\<close>, which is exact where JavaScript's doubles are (magnitudes up to
  \<open>2^53\<close>, far beyond any epoch-seconds timestamp). \<^verbatim>\<open>NaN\<close> and
  \<^verbatim>\<open>undefined\<close> are \<^const>\<open>None\<close>.
\<close>

subsection \<open>Characters and strings\<close>

definition dquote :: char where
  "dquote = CHR 0x22"

definition newline :: char where
  "newline = CHR 0x0A"

text \<open>The characters that \<^verbatim>\<open>.\<close> does not match.\<close>

definition isLineTerminator :: "char \<Rightarrow> bool" where
  "isLineTerminator c = (c = CHR 0x0A \<or> c = CHR 0x0D)"

text \<open>The class \<^verbatim>\<open>\w\<close>: \<^verbatim>\<open>[A-Za-z0-9_]\<close>.\<close>

definition isWordChar :: "char \<Rightarrow> bool" where
  "isWordChar c =
     (let n = (of_char c :: nat)
      in (48 \<le> n \<and> n \<le> 57) \<or> (65 \<le> n \<and> n \<le> 90) \<or> n = 95 \<or> (97 \<le> n \<and> n \<le> 122))"

text \<open>White space and line terminators, as \<^verbatim>\<open>String.prototype.trim\<close> strips them.\<close>

definition isWhiteSpace :: "char \<Rightarrow> bool" where
  "isWhiteSpace c =
     (let n = (of_char c :: nat) in (9 \<le> n \<and> n \<le> 13) \<or> n = 32 \<or> n = 160)"

definition trim :: "string \<Rightarrow> string" where
  "trim s = rev (dropWhile isWhiteSpace (rev (dropWhile isWhiteSpace s)))"

text \<open>\<^verbatim>\<open>value.replace(/"/g, '')\<close>\<close>

definition removeQuotes :: "string \<Rightarrow> string" where
  "removeQuotes s = filter (\<lambda>c. c \<noteq> dquote) s"

text \<open>\<^verbatim>\<open>s.split(' ')\<close>: the empty string splits into one empty piece.\<close>

fun splitSpace :: "string \<Rightarrow> string list" where
  "splitSpace [] = [[]]"
| "splitSpace (c # cs) =
     (if c = CHR '' '' then [] # splitSpace cs
      else (case splitSpace cs of [] \<Rightarrow> [[c]] | w # ws \<Rightarrow> (c # w) # ws))"

text \<open>\<^verbatim>\<open>lines.join('\n')\<close>\<close>

fun joinLines :: "string list \<Rightarrow> string" where
  "joinLines [] = []"
| "joinLines [l] = l"
| "joinLines (l # m # ls) = l @ newline # joinLines (m # ls)"

subsection \<open>Numbers and their text\<close>

definition digitChar :: "nat \<Rightarrow> char" where
  "digitChar d = ''0123456789'' ! (d mod 10)"

text \<open>The value of a digit in the given radix, if it is one (letters in either case).\<close>

definition digitVal :: "nat \<Rightarrow> char \<Rightarrow> nat option" where
  "digitVal radix c =
     (let n = (of_char c :: nat);
          v = (if 48 \<le> n \<and> n \<le> 57 then n - 48
               else if 97 \<le> n \<and> n \<le> 122 then n - 87
               else if 65 \<le> n \<and> n \<le> 90 then n - 55
               else radix)
      in if v < radix then Some v else None)"

text \<open>The decimal digits of a natural number, most significant first.\<close>

function natToString :: "nat \<Rightarrow> string" where
  "natToString n = (if n < 10 then [digitChar n] else natToString (n div 10) @ [digitChar (n mod 10)])"
  by pat_completeness auto
termination
  by (relation "measure id") auto

declare natToString.simps [simp del]

text \<open>What a template literal prints for an integer-valued number.\<close>

definition numToString :: "int \<Rightarrow> string" where
  "numToString i = (if i < 0 then CHR ''-'' # natToString (nat (- i)) else natToString (nat i))"

text \<open>
  \<^verbatim>\<open>parseInt(x)\<close> with no radix: leading white space is skipped, a sign is read, a
  prefix \<^verbatim>\<open>0x\<close> or \<^verbatim>\<open>0X\<close> selects radix 16, and the longest run of digits is the
  value; no digit gives \<^verbatim>\<open>NaN\<close>. The argument \<^verbatim>\<open>undefined\<close> is read as the text
  "undefined", which has no digit.
\<close>

definition parseIntString :: "string \<Rightarrow> int option" where
  "parseIntString s =
     (let s1 = dropWhile isWhiteSpace s;
          neg = (case s1 of [] \<Rightarrow> False | c # _ \<Rightarrow> c = CHR ''-'');
          s2 = (case s1 of [] \<Rightarrow> [] | c # t \<Rightarrow> if c = CHR ''-'' \<or> c = CHR ''+'' then t else s1);
          hex = (case s2 of a # b # _ \<Rightarrow> a = CHR ''0'' \<and> (b = CHR ''x'' \<or> b = CHR ''X'') | _ \<Rightarrow> False);
          radix = (if hex then 16 else 10);
          s3 = (if hex then drop 2 s2 else s2);
          z = takeWhile (\<lambda>c. digitVal radix c \<noteq> None) s3;
          v = foldl (\<lambda>a c. a * radix + the (digitVal radix c)) 0 z
      in if z = [] then None else Some (if neg then - int v else int v))"

definition parseInt :: "string option \<Rightarrow> int option" where
  "parseInt x = (case x of None \<Rightarrow> None | Some s \<Rightarrow> parseIntString s)"

subsection \<open>Hexadecimal text of bytes\<close>

type_synonym bytes = "8 word list"

text \<open>\<^verbatim>\<open>Buffer.from(bytes).toString('hex')\<close>: two lower-case digits per byte.\<close>

definition hexDigit :: "nat \<Rightarrow> char" where
  "hexDigit d = ''0123456789abcdef'' ! (d mod 16)"

definition toHex :: "bytes \<Rightarrow> string" where
  "toHex bs = concat (map (\<lambda>b. [hexDigit (unat b div 16), hexDigit (unat b mod 16)]) bs)"

text \<open>
  \<^verbatim>\<open>Buffer.from(text, 'hex')\<close>: pairs of hexadecimal digits, stopping at the first
  pair that is not one (a trailing single digit is dropped).
\<close>

fun fromHex :: "string \<Rightarrow> bytes" where
  "fromHex (a # b # rest) =
     (case (digitVal 16 a, digitVal 16 b) of
        (Some x, Some y) \<Rightarrow> of_nat (16 * x + y) # fromHex rest
      | _ \<Rightarrow> [])"
| "fromHex _ = []"

subsection \<open>The regular expressions\<close>

text \<open>
  \<^verbatim>\<open>/sig1=\((.*?)\);(.+)/\<close>, tried at one start position. After the literal
  \<^verbatim>\<open>sig1=(\<close> the lazy group grows one character at a time (never over a line
  terminator) until \<^verbatim>\<open>);\<close> follows with at least one more character that is not a
  line terminator; the second group is greedy and takes all of them. The result is the
  pair of groups.
\<close>

fun lazyGroup :: "string \<Rightarrow> string \<Rightarrow> (string \<times> string) option" where
  "lazyGroup acc [] = None"
| "lazyGroup acc (c # cs) =
     (if c = CHR '')'' \<and> take 1 cs = '';'' \<and> takeWhile (\<lambda>x. \<not> isLineTerminator x) (drop 1 cs) \<noteq> []
      then Some (acc, takeWhile (\<lambda>x. \<not> isLineTerminator x) (drop 1 cs))
      else if isLineTerminator c then None
      else lazyGroup (acc @ [c]) cs)"

definition matchSigInputAt :: "string \<Rightarrow> (string \<times> string) option" where
  "matchSigInputAt s = (if take 6 s = ''sig1=('' then lazyGroup [] (drop 6 s) else None)"

text \<open>An unanchored regular expression matches at the leftmost position where it can.\<close>

fun matchSigInput :: "string \<Rightarrow> (string \<times> string) option" where
  "matchSigInput [] = matchSigInputAt []"
| "matchSigInput (c # cs) =
     (case matchSigInputAt (c # cs) of Some r \<Rightarrow> Some r | None \<Rightarrow> matchSigInput cs)"

text \<open>
  \<^verbatim>\<open>/(\w+)=("[^"]+"|[^;]+)/\<close> at one start position: the key is the whole run of
  word characters (a shorter run is not followed by \<^verbatim>\<open>=\<close>), the value is a quoted
  string when a closing quote follows a non-empty run without quotes, and otherwise the
  non-empty run up to the next semicolon. The result is key, value and the text after
  the match.
\<close>

definition matchQuoted :: "string \<Rightarrow> (string \<times> string) option" where
  "matchQuoted v =
     (case v of
        [] \<Rightarrow> None
      | q # t \<Rightarrow>
          (let body = takeWhile (\<lambda>c. c \<noteq> dquote) t; r = dropWhile (\<lambda>c. c \<noteq> dquote) t
           in if q = dquote \<and> body \<noteq> [] \<and> r \<noteq> [] then Some (dquote # body @ [dquote], tl r)
              else None))"

definition matchParamAt :: "string \<Rightarrow> (string \<times> string \<times> string) option" where
  "matchParamAt s =
     (let key = takeWhile isWordChar s; r = dropWhile isWordChar s
      in if key = [] then None
         else (case r of
                 [] \<Rightarrow> None
               | e # v \<Rightarrow>
                   if e \<noteq> CHR ''='' then None
                   else (case matchQuoted v of
                           Some (val, rest) \<Rightarrow> Some (key, val, rest)
                         | None \<Rightarrow>
                             (let val = takeWhile (\<lambda>c. c \<noteq> CHR '';'') v
                              in if val = [] then None
                                 else Some (key, val, dropWhile (\<lambda>c. c \<noteq> CHR '';'') v)))))"

text \<open>
  \<^verbatim>\<open>paramString.matchAll(...)\<close>: the matches from left to right, each search starting
  where the previous match ended.
\<close>

function paramMatches :: "string \<Rightarrow> (string \<times> string) list" where
  "paramMatches s =
     (if s = [] then []
      else (case matchParamAt s of
              Some (k, v, rest) \<Rightarrow> (k, v) # paramMatches rest
            | None \<Rightarrow> paramMatches (tl s)))"
  by pat_completeness auto
termination
proof -
  have l1: "length (dropWhile P xs) \<le> length xs" for P and xs :: string
    by (induction xs) auto
  have shorter: "length rest < length s"
    if a: "matchParamAt s = Some (k, v, rest)" for s k v rest
  proof -
    from a obtain e w where r: "dropWhile isWordChar s = e # w"
      and cases: "(\<exists>val. matchQuoted w = Some (val, rest)) \<or> rest = dropWhile (\<lambda>c. c \<noteq> CHR '';'') w"
      by (auto simp: matchParamAt_def Let_def split: list.splits if_splits option.splits)
    have "length w < length s"
      using l1 [of isWordChar s] r by simp
    moreover have "length rest \<le> length w"
      using cases
    proof
      assume "\<exists>val. matchQuoted w = Some (val, rest)"
      then obtain q t where "w = q # t" and "rest = tl (dropWhile (\<lambda>c. c \<noteq> dquote) t)"
        by (auto simp: matchQuoted_def Let_def split: list.splits if_splits)
      then show ?thesis
        using l1 [of "\<lambda>c. c \<noteq> dquote" t] by simp
    next
      assume "rest = dropWhile (\<lambda>c. c \<noteq> CHR '';'') w"
      then show ?thesis using l1 by simp
    qed
    ultimately show ?thesis by simp
  qed
  show ?thesis
    by (relation "measure length") (auto dest: shorter)
qed

declare paramMatches.simps [simp del]

text \<open>
  \<^verbatim>\<open>/sig1=:([^:]+):/\<close>: after \<^verbatim>\<open>sig1=:\<close> the whole run of characters other than
  a colon, which must not be empty and must be followed by a colon.
\<close>

definition matchSignatureAt :: "string \<Rightarrow> string option" where
  "matchSignatureAt s =
     (if take 6 s = ''sig1=:''
      then (let v = takeWhile (\<lambda>c. c \<noteq> CHR '':'') (drop 6 s);
                r = dropWhile (\<lambda>c. c \<noteq> CHR '':'') (drop 6 s)
            in if v \<noteq> [] \<and> r \<noteq> [] then Some v else None)
      else None)"

fun matchSignature :: "string \<Rightarrow> string option" where
  "matchSignature [] = None"
| "matchSignature (c # cs) =
     (case matchSignatureAt (c # cs) of Some v \<Rightarrow> Some v | None \<Rightarrow> matchSignature cs)"

text \<open>
  \<^verbatim>\<open>/sig1=(.+)/\<close>: after \<^verbatim>\<open>sig1=\<close> the rest of the line, which must not be
  empty.
\<close>

definition matchSigParamsAt :: "string \<Rightarrow> string option" where
  "matchSigParamsAt s =
     (if take 5 s = ''sig1=''
      then (let v = takeWhile (\<lambda>x. \<not> isLineTerminator x) (drop 5 s)
            in if v \<noteq> [] then Some v else None)
      else None)"

fun matchSigParams :: "string \<Rightarrow> string option" where
  "matchSigParams [] = None"
| "matchSigParams (c # cs) =
     (case matchSigParamsAt (c # cs) of Some v \<Rightarrow> Some v | None \<Rightarrow> matchSigParams cs)"

subsection \<open>The libraries\<close>

text \<open>
  Ed25519 (\<^verbatim>\<open>@noble/ed25519\<close>), Base64 (\<^verbatim>\<open>Buffer\<close>) and UTF-8
  (\<^verbatim>\<open>TextEncoder\<close>) are not code of this repository: they are parameters of the
  model. A library call that throws returns \<^const>\<open>None\<close>.
\<close>

record lib =
  textEncode :: "string \<Rightarrow> bytes"
  toBase64 :: "bytes \<Rightarrow> string"
  fromBase64 :: "string \<Rightarrow> bytes"
  ed25519_sign :: "bytes \<Rightarrow> bytes \<Rightarrow> bytes option"
  ed25519_verify :: "bytes \<Rightarrow> bytes \<Rightarrow> bytes \<Rightarrow> bool option"
  ed25519_getPublicKey :: "bytes \<Rightarrow> bytes"

subsection \<open>The agent registry\<close>

record registered_agent =
  name :: string
  publicKey :: string
  algorithm :: string
  registeredAt :: string

text \<open>
  \<^verbatim>\<open>agentRegistry\<close>, a \<^verbatim>\<open>Map\<close>. Its keys are the \<^verbatim>\<open>keyid\<close> strings of the
  registration route, which refuses an absent or empty one.
\<close>

type_synonym registry = "string \<rightharpoonup> registered_agent"

record registration =
  reg_keyid :: string
  reg_name :: string

text \<open>
  \<^verbatim>\<open>registerAgent(keyid, name, publicKey, algorithm = 'ed25519')\<close>: the entry is set,
  whatever was there, and \<^verbatim>\<open>{ keyid, name }\<close> returned. The time stamp of the entry
  is an argument of the model.
\<close>

definition registerAgent ::
  "registry \<Rightarrow> string \<Rightarrow> string \<Rightarrow> string \<Rightarrow> string option \<Rightarrow> string \<Rightarrow> registry \<times> registration" where
  "registerAgent reg keyid nm pk alg stamp =
     (reg(keyid \<mapsto> \<lparr>name = nm, publicKey = pk,
                       algorithm = (case alg of None \<Rightarrow> ''ed25519'' | Some a \<Rightarrow> a),
                       registeredAt = stamp\<rparr>),
      \<lparr>reg_keyid = keyid, reg_name = nm\<rparr>)"

subsection \<open>Parsing the headers\<close>

text \<open>
  The object \<^verbatim>\<open>{ components, ...params }\<close>. Each match sets
  \<^verbatim>\<open>params[key]\<close>, a later one over an earlier one; the key \<^verbatim>\<open>__proto__\<close> sets
  nothing (its setter ignores a string). The properties are kept as an association list
  in the order they were first set, and read with \<^const>\<open>map_of\<close>. A parameter named
  \<^verbatim>\<open>components\<close> replaces the component list by its text, which the loop of
  \<^verbatim>\<open>buildSignatureBase\<close> then reads one character at a time.
\<close>

record sig_params =
  components :: "string list"
  params :: "(string \<times> string) list"

definition setParam :: "(string \<times> string) list \<Rightarrow> string \<times> string \<Rightarrow> (string \<times> string) list" where
  "setParam m kv =
     (if fst kv = ''__proto__'' then m else AList.update (fst kv) (trim (removeQuotes (snd kv))) m)"

definition parseSignatureInput :: "string \<Rightarrow> string + sig_params" where
  "parseSignatureInput signatureInput =
     (case matchSigInput signatureInput of
        None \<Rightarrow> Inl ''Invalid Signature-Input format''
      | Some (m1, paramString) \<Rightarrow>
          (let comps = map removeQuotes (splitSpace m1);
               ps = foldl setParam [] (paramMatches paramString)
           in Inr \<lparr>components = (case map_of ps ''components'' of
                                    None \<Rightarrow> comps
                                  | Some s \<Rightarrow> map (\<lambda>c. [c]) s),
                   params = ps\<rparr>))"

definition parseSignature :: "string \<Rightarrow> string + string" where
  "parseSignature signatureHeader =
     (case matchSignature signatureHeader of
        None \<Rightarrow> Inl ''Invalid Signature format''
      | Some v \<Rightarrow> Inr v)"

subsection \<open>The request and the signature base\<close>

text \<open>
  What the middleware reads of the request. \<^verbatim>\<open>req.get(name)\<close> looks a header up
  without regard to case; the map has the lower-case names, as Node stores them. The
  field \<open>reqMethod\<close> is \<^verbatim>\<open>req.method\<close>.
\<close>

record request =
  path :: string
  reqMethod :: string
  originalUrl :: string
  url :: string
  headers :: "string \<rightharpoonup> string"

definition truthy :: "string option \<Rightarrow> bool" where
  "truthy x = (case x of None \<Rightarrow> False | Some s \<Rightarrow> s \<noteq> [])"

definition componentLine :: "request \<Rightarrow> string \<Rightarrow> string list" where
  "componentLine req component =
     (if component = ''@authority''
      then [[dquote] @ ''@authority'' @ [dquote] @ '': '' @
            (if truthy (headers req ''host'') then the (headers req ''host'') else ''localhost:8000'')]
      else if component = ''@path''
      then [[dquote] @ ''@path'' @ [dquote] @ '': '' @
            (if originalUrl req \<noteq> [] then originalUrl req else url req)]
      else [])"

text \<open>
  \<^verbatim>\<open>buildSignatureBase(req, components, params, signatureInput)\<close>. Reading group 1
  of a failed match throws a \<^verbatim>\<open>TypeError\<close>, the \<^const>\<open>Inl\<close> of the model.
\<close>

definition buildSignatureBase :: "request \<Rightarrow> string list \<Rightarrow> sig_params \<Rightarrow> string \<Rightarrow> string + string" where
  "buildSignatureBase req comps ps signatureInput =
     (let lines = concat (map (componentLine req) comps)
      in case matchSigParams signatureInput of
           None \<Rightarrow> Inl (''Cannot read properties of null (reading '' @ [CHR 0x27] @ ''1'' @ [CHR 0x27] @ '')'')
         | Some signatureParams \<Rightarrow>
             Inr (joinLines (lines @ [[dquote] @ ''@signature-params'' @ [dquote] @ '': '' @ signatureParams])))"

subsection \<open>Verification\<close>

text \<open>
  \<^verbatim>\<open>verifyEd25519Signature\<close>: an exception of the library is caught and gives
  \<^verbatim>\<open>false\<close>.
\<close>

definition verifyEd25519Signature :: "lib \<Rightarrow> string \<Rightarrow> string \<Rightarrow> string \<Rightarrow> bool" where
  "verifyEd25519Signature L signatureBase signatureB64 publicKeyHex =
     (let signature = fromBase64 L signatureB64;
          message = textEncode L signatureBase;
          pk = fromHex publicKeyHex
      in case ed25519_verify L signature message pk of None \<Rightarrow> False | Some b \<Rightarrow> b)"

text \<open>
  The middleware either calls \<^verbatim>\<open>next()\<close>, with \<^verbatim>\<open>req.agent\<close> set or not, or answers
  with a status and a JSON body of \<^verbatim>\<open>error\<close> and \<^verbatim>\<open>message\<close> (the \<^verbatim>\<open>debug\<close> echo
  of the invalid-timestamp answer is left out).
\<close>

record agent_info =
  agent_id :: string
  agent_name :: string

record response =
  status :: nat
  error :: string
  message :: string

datatype outcome = Next "agent_info option" | Reply response

definition reject :: "string \<Rightarrow> string \<Rightarrow> outcome" where
  "reject e m = Reply \<lparr>status = 401, error = e, message = m\<rparr>"

text \<open>The \<^verbatim>\<open>catch\<close> block of the middleware.\<close>

definition caught :: "string \<Rightarrow> outcome" where
  "caught m = reject ''Signature verification failed'' m"

definition showKeyid :: "string option \<Rightarrow> string" where
  "showKeyid k = (case k of None \<Rightarrow> ''undefined'' | Some s \<Rightarrow> s)"

definition lookupAgent :: "registry \<Rightarrow> string option \<Rightarrow> registered_agent option" where
  "lookupAgent reg k = (case k of None \<Rightarrow> None | Some s \<Rightarrow> reg s)"

text \<open>The timestamp checks, in the order of the source; \<^const>\<open>None\<close> lets the request pass.\<close>

definition checkTimestamps :: "int option \<Rightarrow> int option \<Rightarrow> int \<Rightarrow> outcome option" where
  "checkTimestamps created expires now =
     (case (created, expires) of
        (Some c, Some e) \<Rightarrow>
          if c = 0 \<or> e = 0
          then Some (reject ''Invalid timestamp'' ''Signature must include created and expires parameters'')
          else if c > now + 60
          then Some (reject ''Signature from future'' ''Signature created timestamp is in the future'')
          else if e < now
          then Some (reject ''Signature expired'' ''Signature has expired'')
          else if e - c > 300
          then Some (reject ''Signature validity too long'' ''Signature validity period exceeds 5 minutes'')
          else None
      | _ \<Rightarrow> Some (reject ''Invalid timestamp'' ''Signature must include created and expires parameters''))"

text \<open>
  \<^verbatim>\<open>verifySignature(req, res, next)\<close>, with the registry and the clock
  (\<^verbatim>\<open>Math.floor(Date.now() / 1000)\<close>) as arguments.
\<close>

definition verifySignature :: "lib \<Rightarrow> registry \<Rightarrow> int \<Rightarrow> request \<Rightarrow> outcome" where
  "verifySignature L reg now req =
     (if path req = ''/api/registry/register'' \<and> reqMethod req = ''POST'' then Next None
      else
        (let signatureInput = headers req ''signature-input'';
             signature = headers req ''signature'';
             signatureAgent = headers req ''signature-agent''
         in if \<not> truthy signatureInput \<or> \<not> truthy signature
            then reject ''Missing signature headers'' ''Signature-Input and Signature headers are required''
            else
              (case parseSignatureInput (the signatureInput) of
                 Inl m \<Rightarrow> caught m
               | Inr ps \<Rightarrow>
                   (case parseSignature (the signature) of
                      Inl m \<Rightarrow> caught m
                    | Inr signatureValue \<Rightarrow>
                        (case lookupAgent reg (map_of (params ps) ''keyid'') of
                           None \<Rightarrow>
                             reject ''Unknown agent''
                               (''Agent with keyid '' @ [dquote] @ showKeyid (map_of (params ps) ''keyid'') @ [dquote] @
                                '' not found in registry'')
                         | Some agent \<Rightarrow>
                             (case checkTimestamps (parseInt (map_of (params ps) ''created''))
                                     (parseInt (map_of (params ps) ''expires'')) now of
                                Some r \<Rightarrow> r
                              | None \<Rightarrow>
                                  (case buildSignatureBase req (components ps) ps (the signatureInput) of
                                     Inl m \<Rightarrow> caught m
                                   | Inr signatureBase \<Rightarrow>
                                       if verifyEd25519Signature L signatureBase signatureValue (publicKey agent)
                                       then Next (Some \<lparr>agent_id = the (map_of (params ps) ''keyid''),
                                                        agent_name = name agent\<rparr>)
                                       else reject ''Invalid signature'' ''Signature verification failed'')))))))"

subsection \<open>Signing\<close>

record signature_headers =
  Signature_Input :: string
  Signature :: string
  Signature_Agent :: string

definition signatureParamsOf :: "int \<Rightarrow> int \<Rightarrow> string \<Rightarrow> string \<Rightarrow> string" where
  "signatureParamsOf created expires keyId nonce =
     ''('' @ [dquote] @ ''@authority'' @ [dquote] @ '' '' @ [dquote] @ ''@path'' @ [dquote] @ '')'' @
     ''; created='' @ numToString created @
     ''; expires='' @ numToString expires @
     ''; keyid='' @ [dquote] @ keyId @ [dquote] @
     ''; alg='' @ [dquote] @ ''ed25519'' @ [dquote] @
     ''; nonce='' @ [dquote] @ nonce @ [dquote] @
     ''; tag='' @ [dquote] @ ''agent-payer-auth'' @ [dquote]"

definition signatureBaseOf :: "string \<Rightarrow> string \<Rightarrow> string \<Rightarrow> string" where
  "signatureBaseOf authority pth signatureParams =
     joinLines
       [[dquote] @ ''@authority'' @ [dquote] @ '': '' @ authority,
        [dquote] @ ''@path'' @ [dquote] @ '': '' @ pth,
        [dquote] @ ''@signature-params'' @ [dquote] @ '': '' @ signatureParams]"

text \<open>
  \<^verbatim>\<open>generateSignature(authority, path, keyId, privateKey)\<close>. The clock reading
  \<^verbatim>\<open>Math.floor(Date.now() / 1000)\<close> and the bytes of \<^verbatim>\<open>randomBytes(16)\<close> are
  arguments; the result is \<^const>\<open>None\<close> when signing throws.
\<close>

definition generateSignature ::
  "lib \<Rightarrow> int \<Rightarrow> bytes \<Rightarrow> string \<Rightarrow> string \<Rightarrow> string \<Rightarrow> bytes \<Rightarrow> signature_headers option" where
  "generateSignature L clock rnd authority pth keyId privateKey =
     (let created = clock;
          expires = created + 60;
          nonce = toHex rnd;
          signatureParams = signatureParamsOf created expires keyId nonce;
          signatureBase = signatureBaseOf authority pth signatureParams;
          msg = textEncode L signatureBase
      in case ed25519_sign L msg privateKey of
           None \<Rightarrow> None
         | Some sg \<Rightarrow>
             Some \<lparr>Signature_Input = ''sig1='' @ signatureParams,
                   Signature = ''sig1=:'' @ toBase64 L sg @ '':'',
                   Signature_Agent = ''claude-desktop-agent''\<rparr>)"

record keypair =
  privateKey :: string
  publicKeyHex :: string

text \<open>\<^verbatim>\<open>generateKeypair()\<close>, with the bytes of \<^verbatim>\<open>randomPrivateKey()\<close> as argument.\<close>

definition generateKeypair :: "lib \<Rightarrow> bytes \<Rightarrow> keypair" where
  "generateKeypair L secret =
     \<lparr>privateKey = toHex secret, publicKeyHex = toHex (ed25519_getPublicKey L secret)\<rparr>"

subsection \<open>A stand-in for the libraries, and sample data\<close>

text \<open>
  For worked examples the libraries are replaced by a stand-in of the same shape: the
  public key is the secret, a signature is the key followed by one byte, the length of
  the message, text is encoded code unit by code unit and Base64 is played by
  hexadecimal text.
\<close>

definition demoLib :: lib where
  "demoLib =
     \<lparr>textEncode = map (\<lambda>c. of_nat (of_char c)),
      toBase64 = toHex,
      fromBase64 = fromHex,
      ed25519_sign = (\<lambda>m k. Some (k @ [of_nat (length m)])),
      ed25519_verify = (\<lambda>s m k. Some (s = k @ [of_nat (length m)])),
      ed25519_getPublicKey = (\<lambda>k. k)\<rparr>"

text \<open>The same, with a verification that throws.\<close>

definition throwingLib :: lib where
  "throwingLib = demoLib\<lparr>ed25519_verify := (\<lambda>s m k. None)\<rparr>"

text \<open>A registry with one agent, whose key pair comes from the secret \<open>1, 2, 3\<close>.\<close>

definition demoRegistry :: registry where
  "demoRegistry =
     fst (registerAgent Map.empty ''agent-42'' ''Demo Agent''
            (publicKeyHex (generateKeypair demoLib [1, 2, 3])) None ''2024-01-01T00:00:00.000Z'')"

text \<open>A request for \<^verbatim>\<open>GET /api/products?q=laptop\<close> on \<^verbatim>\<open>localhost:8000\<close>.\<close>

definition demoRequest :: "string \<Rightarrow> string \<Rightarrow> request" where
  "demoRequest signatureInput sg =
     \<lparr>path = ''/api/products'', reqMethod = ''GET'',
      originalUrl = ''/api/products?q=laptop'', url = ''/api/products?q=laptop'',
      headers = [''host'' \<mapsto> ''localhost:8000'',
                 ''signature-input'' \<mapsto> signatureInput,
                 ''signature'' \<mapsto> sg]\<rparr>"

text \<open>The parameter string of the specification's scenario, and the header carrying it.\<close>

definition demoParams :: string where
  \<open>demoParams =
     ''("@authority" "@path"); created=1000; expires=1060; keyid="agent-42"; alg="ed25519"; nonce="ab12"; tag="agent-browser-auth"''\<close>

definition demoInput :: string where
  "demoInput = ''sig1='' @ demoParams"

text \<open>What the header parses to.\<close>

definition demoParsed :: sig_params where
  "demoParsed =
     \<lparr>components = [''@authority'', ''@path''],
      params = [(''created'', ''1000''), (''expires'', ''1060''), (''keyid'', ''agent-42''),
                (''alg'', ''ed25519''), (''nonce'', ''ab12''), (''tag'', ''agent-browser-auth'')]\<rparr>"

definition demoAgent :: registered_agent where
  "demoAgent =
     \<lparr>name = ''Demo Agent'', publicKey = ''010203'', algorithm = ''ed25519'',
      registeredAt = ''2024-01-01T00:00:00.000Z''\<rparr>"

text \<open>Variants of the header: other components, timestamps and algorithm.\<close>

definition sampleInput :: "string \<Rightarrow> string \<Rightarrow> string \<Rightarrow> string \<Rightarrow> string" where
  \<open>sampleInput comps created expires alg =
     ''sig1=('' @ comps @ ''); created='' @ created @ ''; expires='' @ expires @
     ''; keyid="agent-42"; alg="'' @ alg @ ''"; nonce="ab12"; tag="agent-browser-auth"''\<close>

definition sampleParsed :: "string list \<Rightarrow> string \<Rightarrow> string \<Rightarrow> string \<Rightarrow> sig_params" where
  "sampleParsed comps created expires alg =
     \<lparr>components = comps,
      params = [(''created'', created), (''expires'', expires), (''keyid'', ''agent-42''),
                (''alg'', alg), (''nonce'', ''ab12''), (''tag'', ''agent-browser-auth'')]\<rparr>"

definition bothComponents :: string where
  \<open>bothComponents = ''"@authority" "@path"''\<close>

definition otherComponents :: string where
  \<open>otherComponents = ''"@method" "content-type"''\<close>

text \<open>The three-line base of the specification's scenario.\<close>

definition demoBase :: string where
  \<open>demoBase =
     ''"@authority": localhost:8000'' @ [newline] @
     ''"@path": /api/products?q=laptop'' @ [newline] @
     ''"@signature-params": '' @ demoParams\<close>

text \<open>The base rebuilt for the components \<^verbatim>\<open>@method\<close> and \<^verbatim>\<open>@path\<close>.\<close>

definition pathOnlyBase :: string where
  \<open>pathOnlyBase =
     ''"@path": /api/products?q=laptop'' @ [newline] @
     ''"@signature-params": '' @ demoParams\<close>

text \<open>The parameter string the signer makes of the scenario's values.\<close>

definition payerParams :: string where
  \<open>payerParams =
     ''("@authority" "@path"); created=1000; expires=1060; keyid="agent-42"; alg="ed25519"; nonce="ab12"; tag="agent-payer-auth"''\<close>

text \<open>A key identifier with a double quote in it.\<close>

definition quotedKeyId :: string where
  \<open>quotedKeyId = ''a"b''\<close>

text \<open>A request that differs from the sample only in its \<^verbatim>\<open>Signature-Agent\<close> header.\<close>

definition withSignatureAgent :: "request \<Rightarrow> string option \<Rightarrow> request" where
  "withSignatureAgent req v = req\<lparr>headers := (headers req)(''signature-agent'' := v)\<rparr>"

subsection \<open>The stages of a verification\<close>

text \<open>
  The request is not the registration request that the middleware lets through, it
  carries both headers, and both parse: the header text, the parsed parameters and the
  signature value.
\<close>

definition parsedHeaders :: "request \<Rightarrow> (string \<times> sig_params \<times> string) option" where
  "parsedHeaders req =
     (if path req = ''/api/registry/register'' \<and> reqMethod req = ''POST'' then None
      else (case (headers req ''signature-input'', headers req ''signature'') of
              (Some si, Some sg) \<Rightarrow>
                if si = [] \<or> sg = [] then None
                else (case (parseSignatureInput si, parseSignature sg) of
                        (Inr ps, Inr sv) \<Rightarrow> Some (si, ps, sv)
                      | _ \<Rightarrow> None)
            | _ \<Rightarrow> None))"

text \<open>
  The value a supported component resolves to: the \<^verbatim>\<open>Host\<close> header (or the
  default) for \<^verbatim>\<open>@authority\<close>, the URL with its query string for \<^verbatim>\<open>@path\<close>.
\<close>

definition resolvedValue :: "request \<Rightarrow> string \<Rightarrow> string" where
  "resolvedValue req c =
     (if c = ''@authority''
      then (if truthy (headers req ''host'') then the (headers req ''host'') else ''localhost:8000'')
      else (if originalUrl req \<noteq> [] then originalUrl req else url req))"

definition supported :: "string \<Rightarrow> bool" where
  "supported c = (c = ''@authority'' \<or> c = ''@path'')"

text \<open>The error texts of the middleware's answers.\<close>

definition errorTexts :: "string list" where
  "errorTexts =
     [''Missing signature headers'', ''Signature verification failed'', ''Unknown agent'',
      ''Invalid timestamp'', ''Signature from future'', ''Signature expired'',
      ''Signature validity too long'', ''Invalid signature'']"

definition rejected :: "outcome \<Rightarrow> bool" where
  "rejected out = (case out of Next _ \<Rightarrow> False | Reply _ \<Rightarrow> True)"

definition rejectedWith :: "outcome \<Rightarrow> string \<Rightarrow> bool" where
  "rejectedWith out e = (case out of Next _ \<Rightarrow> False | Reply r \<Rightarrow> error r = e)"

text \<open>The characters of the decimal and the hexadecimal text of a number.\<close>

definition decimalDigits :: "char set" where
  "decimalDigits = set ''0123456789''"

definition hexDigits :: "char set" where
  "hexDigits = set ''0123456789abcdef''"

section \<open>Properties\<close>

subsection \<open>Unfolding the middleware\<close>

lemma verifySignature_parsed:
  assumes "parsedHeaders req = Some (si, ps, sv)"
  shows "verifySignature L reg now req =
     (case lookupAgent reg (map_of (params ps) ''keyid'') of
        None \<Rightarrow>
          reject ''Unknown agent''
            (''Agent with keyid '' @ [dquote] @ showKeyid (map_of (params ps) ''keyid'') @ [dquote] @
             '' not found in registry'')
      | Some agent \<Rightarrow>
          (case checkTimestamps (parseInt (map_of (params ps) ''created''))
                  (parseInt (map_of (params ps) ''expires'')) now of
             Some r \<Rightarrow> r
           | None \<Rightarrow>
               (case buildSignatureBase req (components ps) ps si of
                  Inl m \<Rightarrow> caught m
                | Inr signatureBase \<Rightarrow>
                    if verifyEd25519Signature L signatureBase sv (publicKey agent)
                    then Next (Some \<lparr>agent_id = the (map_of (params ps) ''keyid''),
                                     agent_name = name agent\<rparr>)
                    else reject ''Invalid signature'' ''Signature verification failed'')))"
  using assms
  by (auto simp: parsedHeaders_def verifySignature_def truthy_def Let_def
           split: if_splits option.splits sum.splits)

lemma verifySignature_timestamps:
  assumes "parsedHeaders req = Some (si, ps, sv)"
    and "lookupAgent reg (map_of (params ps) ''keyid'') = Some agent"
    and "checkTimestamps (parseInt (map_of (params ps) ''created''))
           (parseInt (map_of (params ps) ''expires'')) now = Some r"
  shows "verifySignature L reg now req = r"
  using assms by (simp add: verifySignature_parsed)

lemma verifySignature_crypto:
  assumes "parsedHeaders req = Some (si, ps, sv)"
    and "map_of (params ps) ''keyid'' = Some k"
    and "reg k = Some agent"
    and "checkTimestamps (parseInt (map_of (params ps) ''created''))
           (parseInt (map_of (params ps) ''expires'')) now = None"
    and "buildSignatureBase req (components ps) ps si = Inr signatureBase"
  shows "verifySignature L reg now req =
     (if verifyEd25519Signature L signatureBase sv (publicKey agent)
      then Next (Some \<lparr>agent_id = k, agent_name = name agent\<rparr>)
      else reject ''Invalid signature'' ''Signature verification failed'')"
  using assms by (simp add: verifySignature_parsed lookupAgent_def)

subsection \<open>The sample data\<close>

lemma demo_parsed:
  "parsedHeaders (demoRequest demoInput ''sig1=:010203cd:'') = Some (demoInput, demoParsed, ''010203cd'')"
  by code_simp

lemma demo_agent: "demoRegistry ''agent-42'' = Some demoAgent"
  by code_simp

lemma parseInt_samples:
  "parseInt (Some ''1000'') = Some 1000" "parseInt (Some ''1060'') = Some 1060"
  "parseInt (Some ''1061'') = Some 1061" "parseInt (Some ''999'') = Some 999"
  "parseInt (Some ''1300'') = Some 1300" "parseInt (Some ''1301'') = Some 1301"
  by code_simp+

lemma sample_parsed_1061_999:
  "parsedHeaders (demoRequest (sampleInput bothComponents ''1061'' ''999'' ''ed25519'') ''sig1=:00:'') =
     Some (sampleInput bothComponents ''1061'' ''999'' ''ed25519'',
           sampleParsed [''@authority'', ''@path''] ''1061'' ''999'' ''ed25519'', ''00'')"
  by code_simp

lemma sample_parsed_1000_1301:
  "parsedHeaders (demoRequest (sampleInput bothComponents ''1000'' ''1301'' ''ed25519'') ''sig1=:00:'') =
     Some (sampleInput bothComponents ''1000'' ''1301'' ''ed25519'',
           sampleParsed [''@authority'', ''@path''] ''1000'' ''1301'' ''ed25519'', ''00'')"
  by code_simp

lemma sample_parsed_1000_1300:
  "parsedHeaders (demoRequest (sampleInput bothComponents ''1000'' ''1300'' ''ed25519'') ''sig1=:00:'') =
     Some (sampleInput bothComponents ''1000'' ''1300'' ''ed25519'',
           sampleParsed [''@authority'', ''@path''] ''1000'' ''1300'' ''ed25519'', ''00'')"
  by code_simp

lemma sample_keyid:
  "map_of (params (sampleParsed comps created expires alg)) ''keyid'' = Some ''agent-42''"
  "map_of (params (sampleParsed comps created expires alg)) ''created'' = Some created"
  "map_of (params (sampleParsed comps created expires alg)) ''expires'' = Some expires"
  "map_of (params (sampleParsed comps created expires alg)) ''alg'' = Some alg"
  by (simp_all add: sampleParsed_def)

lemma demo_keyid:
  "map_of (params demoParsed) ''keyid'' = Some ''agent-42''"
  "map_of (params demoParsed) ''created'' = Some ''1000''"
  "map_of (params demoParsed) ''expires'' = Some ''1060''"
  "map_of (params demoParsed) ''alg'' = Some ''ed25519''"
  by (simp_all add: demoParsed_def)

lemma demo_lookup: "lookupAgent demoRegistry (Some ''agent-42'') = Some demoAgent"
  by (simp add: lookupAgent_def demo_agent)

lemma demo_base:
  "buildSignatureBase (demoRequest demoInput sg) [''@authority'', ''@path''] ps demoInput = Inr demoBase"
  unfolding demoRequest_def by code_simp

lemma demo_components: "components demoParsed = [''@authority'', ''@path'']"
  by (simp add: demoParsed_def)

lemma sample_components: "components (sampleParsed comps created expires alg) = comps"
  by (simp add: sampleParsed_def)

lemma demo_timestamps:
  "checkTimestamps (parseInt (Some ''1000'')) (parseInt (Some ''1060'')) 1030 = None"
  by (simp add: parseInt_samples checkTimestamps_def)

lemma demo_signature_valid:
  "verifyEd25519Signature demoLib demoBase ''010203cd'' ''010203''"
  by code_simp

lemma demo_signature_invalid:
  "\<not> verifyEd25519Signature demoLib demoBase ''010203cd'' ''ffff''"
  by code_simp

lemma demo_accepted:
  "verifySignature demoLib demoRegistry 1030 (demoRequest demoInput ''sig1=:010203cd:'') =
     Next (Some \<lparr>agent_id = ''agent-42'', agent_name = ''Demo Agent''\<rparr>)"
proof -
  have b: "buildSignatureBase (demoRequest demoInput ''sig1=:010203cd:'') (components demoParsed)
          demoParsed demoInput = Inr demoBase"
    by (simp add: demo_base demo_components)
  show ?thesis
    using verifySignature_crypto [where reg = demoRegistry and now = 1030 and L = demoLib,
        OF demo_parsed demo_keyid(1) demo_agent _ b]
    by (simp add: demo_keyid demo_timestamps demo_signature_valid demoAgent_def)
qed

lemma componentLine_unsupported: "\<not> supported c \<Longrightarrow> componentLine req c = []"
  by (simp add: componentLine_def supported_def)

lemma componentLine_supported:
  "supported c \<Longrightarrow> componentLine req c = [[dquote] @ c @ [dquote] @ '': '' @ resolvedValue req c]"
  by (auto simp: componentLine_def supported_def resolvedValue_def)

lemma component_lines_filter:
  "concat (map (componentLine req) comps) =
     map (\<lambda>c. [dquote] @ c @ [dquote] @ '': '' @ resolvedValue req c) (filter supported comps)"
  by (induction comps) (simp_all add: componentLine_unsupported componentLine_supported)

lemma sample_parsed_other:
  "parsedHeaders (demoRequest (sampleInput otherComponents ''1000'' ''1060'' ''ed25519'') ''sig1=:01020394:'') =
     Some (sampleInput otherComponents ''1000'' ''1060'' ''ed25519'',
           sampleParsed [''@method'', ''content-type''] ''1000'' ''1060'' ''ed25519'', ''01020394'')"
  by code_simp

lemma sample_parsed_none:
  "parsedHeaders (demoRequest (sampleInput [] ''1000'' ''1060'' ''ed25519'') ''sig1=:0102037c:'') =
     Some (sampleInput [] ''1000'' ''1060'' ''ed25519'',
           sampleParsed [[]] ''1000'' ''1060'' ''ed25519'', ''0102037c'')"
  by code_simp

lemma sample_params_other:
  "matchSigParams (sampleInput otherComponents ''1000'' ''1060'' ''ed25519'') =
     Some (drop 5 (sampleInput otherComponents ''1000'' ''1060'' ''ed25519''))"
  by code_simp

lemma sample_params_none:
  "matchSigParams (sampleInput [] ''1000'' ''1060'' ''ed25519'') =
     Some (drop 5 (sampleInput [] ''1000'' ''1060'' ''ed25519''))"
  by code_simp

lemma sample_valid_other:
  "verifyEd25519Signature demoLib
     ([dquote] @ ''@signature-params'' @ [dquote] @ '': '' @
      drop 5 (sampleInput otherComponents ''1000'' ''1060'' ''ed25519''))
     ''01020394'' ''010203''"
  by code_simp

lemma sample_valid_none:
  "verifyEd25519Signature demoLib
     ([dquote] @ ''@signature-params'' @ [dquote] @ '': '' @
      drop 5 (sampleInput [] ''1000'' ''1060'' ''ed25519''))
     ''0102037c'' ''010203''"
  by code_simp

lemma sample_parsed_rsa:
  "parsedHeaders (demoRequest (sampleInput bothComponents ''1000'' ''1060'' ''rsa-pss-sha256'') ''sig1=:010203d4:'') =
     Some (sampleInput bothComponents ''1000'' ''1060'' ''rsa-pss-sha256'',
           sampleParsed [''@authority'', ''@path''] ''1000'' ''1060'' ''rsa-pss-sha256'', ''010203d4'')"
  by code_simp

lemma sample_base_rsa:
  "buildSignatureBase (demoRequest (sampleInput bothComponents ''1000'' ''1060'' ''rsa-pss-sha256'') sg)
     [''@authority'', ''@path''] ps (sampleInput bothComponents ''1000'' ''1060'' ''rsa-pss-sha256'') =
   Inr (signatureBaseOf ''localhost:8000'' ''/api/products?q=laptop''
          (drop 5 (sampleInput bothComponents ''1000'' ''1060'' ''rsa-pss-sha256'')))"
  unfolding demoRequest_def by code_simp

lemma sample_valid_rsa:
  "verifyEd25519Signature demoLib
     (signatureBaseOf ''localhost:8000'' ''/api/products?q=laptop''
        (drop 5 (sampleInput bothComponents ''1000'' ''1060'' ''rsa-pss-sha256'')))
     ''010203d4'' ''010203''"
  by code_simp

lemma sample_accepted_rsa:
  "verifySignature demoLib demoRegistry 1030
     (demoRequest (sampleInput bothComponents ''1000'' ''1060'' ''rsa-pss-sha256'') ''sig1=:010203d4:'') =
   Next (Some \<lparr>agent_id = ''agent-42'', agent_name = ''Demo Agent''\<rparr>)"
  using verifySignature_crypto [where reg = demoRegistry and now = 1030 and L = demoLib,
        OF sample_parsed_rsa sample_keyid(1) demo_agent]
  by (simp add: sample_keyid sample_components demo_timestamps sample_base_rsa sample_valid_rsa demoAgent_def)

lemma reply_taxonomy:
  "verifySignature L reg now req = Reply r \<Longrightarrow> status r = 401 \<and> error r \<in> set errorTexts"
  by (auto simp: verifySignature_def Let_def reject_def caught_def checkTimestamps_def errorTexts_def
        split: if_splits option.splits sum.splits)

lemma demo_rejected_bad_signature:
  "verifySignature demoLib demoRegistry 1030 (demoRequest demoInput ''sig1=:00:'') =
     reject ''Invalid signature'' ''Signature verification failed''"
  by code_simp

lemma matchSigParams_Some:
  "matchSigParams s = Some v \<Longrightarrow> v \<noteq> [] \<and> (\<forall>c\<in>set v. \<not> isLineTerminator c)"
proof (induction s)
  case Nil
  then show ?case by simp
next
  case (Cons c cs)
  show ?case
  proof (cases "matchSigParamsAt (c # cs)")
    case None
    with Cons show ?thesis by simp
  next
    case (Some w)
    with Cons.prems have "w = v" by simp
    with Some show ?thesis
      by (auto simp: matchSigParamsAt_def Let_def split: if_splits dest: set_takeWhileD)
  qed
qed

lemma joinLines_last:
  "l \<noteq> [] \<Longrightarrow> joinLines (ls @ [l]) \<noteq> [] \<and> last (joinLines (ls @ [l])) = last l"
proof (induction ls)
  case Nil
  then show ?case by simp
next
  case (Cons x xs)
  then obtain m ms where e: "xs @ [l] = m # ms"
    by (cases "xs @ [l]") auto
  with Cons show ?case by simp
qed

lemma demo_sig_params: "matchSigParams demoInput = Some demoParams"
  by code_simp

lemma demo_base_other:
  "buildSignatureBase (demoRequest demoInput sg) [''@method'', ''@path''] ps demoInput = Inr pathOnlyBase"
  unfolding demoRequest_def by code_simp

lemma signer_params: "signatureParamsOf 1000 1060 ''agent-42'' ''ab12'' = payerParams"
  by code_simp

lemma signer_base_demo:
  "signatureBaseOf ''localhost:8000'' ''/api/products?q=laptop'' demoParams = demoBase"
  by code_simp

subsection \<open>Numbers, hexadecimal text and trimming\<close>

lemma takeWhile_stop: "(\<forall>x\<in>set xs. P x) \<Longrightarrow> \<not> P y \<Longrightarrow> takeWhile P (xs @ y # ys) = xs"
  by (induction xs) auto

lemma dropWhile_stop: "(\<forall>x\<in>set xs. P x) \<Longrightarrow> \<not> P y \<Longrightarrow> dropWhile P (xs @ y # ys) = y # ys"
  by (induction xs) auto

lemma digit_facts:
  assumes "c \<in> decimalDigits"
  shows "\<not> isWhiteSpace c" and "c \<noteq> CHR '';''" and "c \<noteq> dquote" and "\<not> isLineTerminator c"
    and "digitVal 10 c \<noteq> None" and "c \<noteq> CHR ''-''" and "c \<noteq> CHR ''+''"
    and "c \<noteq> CHR ''x''" and "c \<noteq> CHR ''X''"
  using assms
  by (auto simp: decimalDigits_def isWhiteSpace_def dquote_def isLineTerminator_def digitVal_def)

lemma hex_facts:
  assumes "c \<in> hexDigits"
  shows "\<not> isWhiteSpace c" and "c \<noteq> dquote" and "\<not> isLineTerminator c"
  using assms
  by (auto simp: hexDigits_def isWhiteSpace_def dquote_def isLineTerminator_def)

lemma digitChar_digit: "digitChar d \<in> decimalDigits"
proof -
  have "d mod 10 < length ''0123456789''" by simp
  then show ?thesis unfolding digitChar_def decimalDigits_def by (rule nth_mem)
qed

lemma hexDigit_hex: "hexDigit d \<in> hexDigits"
proof -
  have "d mod 16 < length ''0123456789abcdef''" by simp
  then show ?thesis unfolding hexDigit_def hexDigits_def by (rule nth_mem)
qed

lemma natToString_digits: "natToString n \<noteq> [] \<and> set (natToString n) \<subseteq> decimalDigits"
proof (induction n rule: natToString.induct)
  case (1 n)
  show ?case
  proof (cases "n < 10")
    case True
    then show ?thesis
      using digitChar_digit [of n] by (subst natToString.simps, subst (2) natToString.simps) simp
  next
    case False
    then show ?thesis
      using 1 digitChar_digit [of "n mod 10"]
      by (subst natToString.simps, subst (2) natToString.simps) simp
  qed
qed

lemma toHex_hex: "set (toHex bs) \<subseteq> hexDigits"
proof -
  have "set (toHex bs) \<subseteq> H" if "\<And>d. hexDigit d \<in> H" for H
    using that by (induction bs) (auto simp: toHex_def)
  then show ?thesis using hexDigit_hex by blast
qed

lemma digitVal_digitChar: "d < 10 \<Longrightarrow> digitVal 10 (digitChar d) = Some d"
proof -
  assume "d < 10"
  then have "d = 0 \<or> d = 1 \<or> d = 2 \<or> d = 3 \<or> d = 4 \<or> d = 5 \<or> d = 6 \<or> d = 7 \<or> d = 8 \<or> d = 9"
    by arith
  then show ?thesis
    by (elim disjE) (simp_all add: digitVal_def digitChar_def)
qed

lemma digitVal_hexDigit: "d < 16 \<Longrightarrow> digitVal 16 (hexDigit d) = Some d"
proof -
  assume "d < 16"
  then have "d = 0 \<or> d = 1 \<or> d = 2 \<or> d = 3 \<or> d = 4 \<or> d = 5 \<or> d = 6 \<or> d = 7 \<or> d = 8 \<or> d = 9
      \<or> d = 10 \<or> d = 11 \<or> d = 12 \<or> d = 13 \<or> d = 14 \<or> d = 15"
    by arith
  then show ?thesis
    by (elim disjE) (simp_all add: digitVal_def hexDigit_def)
qed

lemma fromHex_toHex: "fromHex (toHex bs) = bs"
proof (induction bs)
  case Nil
  then show ?case by (simp add: toHex_def)
next
  case (Cons b bs)
  have "unat b < 256" using unsigned_less [of b, where ?'a = nat] by simp
  then have d: "unat b div 16 < 16" "unat b mod 16 < 16" by simp_all
  have "(of_nat (16 * (unat b div 16) + unat b mod 16) :: 8 word) = b"
    by simp
  then show ?case
    using Cons d by (simp add: toHex_def digitVal_hexDigit)
qed

lemma natToString_value:
  "foldl (\<lambda>a c. a * 10 + the (digitVal 10 c)) 0 (natToString n) = n"
proof (induction n rule: natToString.induct)
  case (1 n)
  show ?case
  proof (cases "n < 10")
    case True
    then show ?thesis
      by (subst natToString.simps) (simp add: digitVal_digitChar)
  next
    case False
    then show ?thesis
      using 1 by (subst natToString.simps) (simp add: digitVal_digitChar)
  qed
qed

lemma parseIntString_natToString: "parseIntString (natToString n) = Some (int n)"
proof -
  obtain d ds where ds: "natToString n = d # ds"
    using natToString_digits [of n] by (cases "natToString n") auto
  have all: "\<forall>c\<in>set (d # ds). c \<in> decimalDigits"
    using natToString_digits [of n] ds by auto
  then have dd: "d \<in> decimalDigits" by simp
  have s1: "dropWhile isWhiteSpace (d # ds) = d # ds"
    using digit_facts(1) [OF dd] by simp
  have sg: "d \<noteq> CHR ''-''" "d \<noteq> CHR ''+''"
    using digit_facts(6,7) [OF dd] by simp_all
  have nohex: "(case ds of [] \<Rightarrow> False | b # _ \<Rightarrow> d = CHR ''0'' \<and> (b = CHR ''x'' \<or> b = CHR ''X'')) = False"
  proof (cases ds)
    case Nil
    then show ?thesis by simp
  next
    case (Cons b bs)
    then have "b \<in> decimalDigits" using all by simp
    then show ?thesis
      using Cons digit_facts(8,9) [of b] by simp
  qed
  have tw: "takeWhile (\<lambda>c. digitVal 10 c \<noteq> None) (d # ds) = d # ds"
    unfolding takeWhile_eq_all_conv using all digit_facts(5) by blast
  have v: "foldl (\<lambda>a c. a * 10 + the (digitVal 10 c)) 0 (d # ds) = n"
    using natToString_value [of n] by (simp only: ds)
  have "parseIntString (d # ds) = Some (int n)"
    unfolding parseIntString_def Let_def s1
    by (simp only: list.case sg nohex if_False tw v simp_thms list.distinct)
  then show ?thesis by (simp only: ds)
qed

lemma parseInt_numToString: "0 < i \<Longrightarrow> parseInt (Some (numToString i)) = Some i"
  by (simp add: parseInt_def numToString_def parseIntString_natToString)

lemma numToString_digits:
  "0 < i \<Longrightarrow> numToString i \<noteq> [] \<and> set (numToString i) \<subseteq> decimalDigits"
  using natToString_digits [of "nat i"] by (simp add: numToString_def)

lemma trim_id: "\<forall>c\<in>set s. \<not> isWhiteSpace c \<Longrightarrow> trim s = s"
proof -
  assume a: "\<forall>c\<in>set s. \<not> isWhiteSpace c"
  have dw: "dropWhile isWhiteSpace xs = xs" if "\<forall>c\<in>set xs. \<not> isWhiteSpace c" for xs
    using that by (cases xs) auto
  have "dropWhile isWhiteSpace s = s"
    using dw [of s] a by simp
  moreover have "dropWhile isWhiteSpace (rev s) = rev s"
    using dw [of "rev s"] a by simp
  ultimately show ?thesis by (simp add: trim_def)
qed

lemma removeQuotes_id: "dquote \<notin> set s \<Longrightarrow> removeQuotes s = s"
  by (induction s) (auto simp: removeQuotes_def)

lemma removeQuotes_quoted: "dquote \<notin> set s \<Longrightarrow> removeQuotes (dquote # s @ [dquote]) = s"
  using removeQuotes_id [of s] by (simp add: removeQuotes_def)

subsection \<open>Matching the parameters of a header\<close>

lemma paramMatches_Nil: "paramMatches [] = []"
  by (subst paramMatches.simps) simp

lemma paramMatches_skip: "\<not> isWordChar c \<Longrightarrow> paramMatches (c # s) = paramMatches s"
  by (subst paramMatches.simps) (simp add: matchParamAt_def)

lemma matchParamAt_key:
  assumes "key \<noteq> []" and "\<forall>c\<in>set key. isWordChar c"
  shows "matchParamAt (key @ CHR ''='' # v) =
     (case matchQuoted v of
        Some (val, rest) \<Rightarrow> Some (key, val, rest)
      | None \<Rightarrow>
          (let val = takeWhile (\<lambda>c. c \<noteq> CHR '';'') v
           in if val = [] then None else Some (key, val, dropWhile (\<lambda>c. c \<noteq> CHR '';'') v)))"
proof -
  have e: "\<not> isWordChar CHR ''=''" by (simp add: isWordChar_def)
  have "takeWhile isWordChar (key @ CHR ''='' # v) = key"
    using assms(2) e by (rule takeWhile_stop)
  moreover have "dropWhile isWordChar (key @ CHR ''='' # v) = CHR ''='' # v"
    using assms(2) e by (rule dropWhile_stop)
  ultimately show ?thesis
    using assms(1) by (simp add: matchParamAt_def)
qed

lemma paramMatches_unquoted:
  assumes "key \<noteq> []" and "\<forall>c\<in>set key. isWordChar c"
    and "val \<noteq> []" and "\<forall>c\<in>set val. c \<noteq> CHR '';''" and "hd val \<noteq> dquote"
  shows "paramMatches (key @ CHR ''='' # val @ CHR '';'' # rest) =
     (key, val) # paramMatches (CHR '';'' # rest)"
proof -
  have q: "matchQuoted (val @ CHR '';'' # rest) = None"
    using assms(3,5) by (cases val) (simp_all add: matchQuoted_def)
  have t: "takeWhile (\<lambda>c. c \<noteq> CHR '';'') (val @ CHR '';'' # rest) = val"
    using assms(4) by (intro takeWhile_stop) simp_all
  have d: "dropWhile (\<lambda>c. c \<noteq> CHR '';'') (val @ CHR '';'' # rest) = CHR '';'' # rest"
    using assms(4) by (intro dropWhile_stop) simp_all
  have "matchParamAt (key @ CHR ''='' # val @ CHR '';'' # rest) = Some (key, val, CHR '';'' # rest)"
    using assms(3) by (simp add: matchParamAt_key [OF assms(1,2)] q t d)
  then show ?thesis
    using assms(1) by (subst paramMatches.simps) simp
qed

lemma paramMatches_quoted:
  assumes "key \<noteq> []" and "\<forall>c\<in>set key. isWordChar c" and "dquote \<notin> set body"
  shows "paramMatches (key @ CHR ''='' # dquote # body @ dquote # CHR '';'' # rest) =
     (key, dquote # body @ [dquote]) # paramMatches (CHR '';'' # rest)"
proof (cases "body = []")
  case True
  have q: "matchQuoted (dquote # dquote # CHR '';'' # rest) = None"
    by (simp add: matchQuoted_def)
  have ne: "dquote \<noteq> CHR '';''" by (simp add: dquote_def)
  have "matchParamAt (key @ CHR ''='' # dquote # dquote # CHR '';'' # rest) =
      Some (key, [dquote, dquote], CHR '';'' # rest)"
    using ne by (simp add: matchParamAt_key [OF assms(1,2)] q)
  then show ?thesis
    using assms(1) True by (subst paramMatches.simps) simp
next
  case False
  have nq: "\<forall>c\<in>set body. c \<noteq> dquote" using assms(3) by auto
  have t: "takeWhile (\<lambda>c. c \<noteq> dquote) (body @ dquote # CHR '';'' # rest) = body"
    using nq by (intro takeWhile_stop) simp_all
  have d: "dropWhile (\<lambda>c. c \<noteq> dquote) (body @ dquote # CHR '';'' # rest) = dquote # CHR '';'' # rest"
    using nq by (intro dropWhile_stop) simp_all
  have q: "matchQuoted (dquote # body @ dquote # CHR '';'' # rest) =
      Some (dquote # body @ [dquote], CHR '';'' # rest)"
    using False by (simp add: matchQuoted_def t d)
  have "matchParamAt (key @ CHR ''='' # dquote # body @ dquote # CHR '';'' # rest) =
      Some (key, dquote # body @ [dquote], CHR '';'' # rest)"
    by (simp add: matchParamAt_key [OF assms(1,2)] q)
  then show ?thesis
    using assms(1) by (subst paramMatches.simps) simp
qed

lemma paramMatches_quoted_end:
  assumes "key \<noteq> []" and "\<forall>c\<in>set key. isWordChar c" and "dquote \<notin> set body" and "body \<noteq> []"
  shows "paramMatches (key @ CHR ''='' # dquote # body @ [dquote]) = [(key, dquote # body @ [dquote])]"
proof -
  have nq: "\<forall>c\<in>set body. c \<noteq> dquote" using assms(3) by auto
  have t: "takeWhile (\<lambda>c. c \<noteq> dquote) (body @ dquote # []) = body"
    using nq by (intro takeWhile_stop) simp_all
  have d: "dropWhile (\<lambda>c. c \<noteq> dquote) (body @ dquote # []) = dquote # []"
    using nq by (intro dropWhile_stop) simp_all
  have q: "matchQuoted (dquote # body @ [dquote]) = Some (dquote # body @ [dquote], [])"
    using assms(4) by (simp add: matchQuoted_def t d)
  have "matchParamAt (key @ CHR ''='' # dquote # body @ [dquote]) =
      Some (key, dquote # body @ [dquote], [])"
    by (simp add: matchParamAt_key [OF assms(1,2)] q)
  then show ?thesis
    using assms(1) by (subst paramMatches.simps) (simp add: paramMatches_Nil)
qed

lemma paramMatches_generated:
  assumes "C \<noteq> []" and "set C \<subseteq> decimalDigits" and "E \<noteq> []" and "set E \<subseteq> decimalDigits"
    and "dquote \<notin> set K" and "dquote \<notin> set N"
  shows "paramMatches
           ('' created='' @ C @ ''; expires='' @ E @ ''; keyid='' @ [dquote] @ K @ [dquote] @
            ''; alg='' @ [dquote] @ ''ed25519'' @ [dquote] @ ''; nonce='' @ [dquote] @ N @ [dquote] @
            ''; tag='' @ [dquote] @ ''agent-payer-auth'' @ [dquote]) =
         [(''created'', C), (''expires'', E), (''keyid'', dquote # K @ [dquote]),
          (''alg'', dquote # ''ed25519'' @ [dquote]), (''nonce'', dquote # N @ [dquote]),
          (''tag'', dquote # ''agent-payer-auth'' @ [dquote])]"
proof -
  let ?T6 = "''tag'' @ CHR ''='' # dquote # ''agent-payer-auth'' @ [dquote]"
  let ?T5 = "''nonce'' @ CHR ''='' # dquote # N @ dquote # CHR '';'' # CHR '' '' # ?T6"
  let ?T4 = "''alg'' @ CHR ''='' # dquote # ''ed25519'' @ dquote # CHR '';'' # CHR '' '' # ?T5"
  let ?T3 = "''keyid'' @ CHR ''='' # dquote # K @ dquote # CHR '';'' # CHR '' '' # ?T4"
  let ?T2 = "''expires'' @ CHR ''='' # E @ CHR '';'' # CHR '' '' # ?T3"
  let ?T1 = "''created'' @ CHR ''='' # C @ CHR '';'' # CHR '' '' # ?T2"
  have sk: "paramMatches (CHR '';'' # CHR '' '' # s) = paramMatches s" for s
    by (simp add: paramMatches_skip isWordChar_def)
  have w: "\<forall>c\<in>set ''created''. isWordChar c" "\<forall>c\<in>set ''expires''. isWordChar c"
    "\<forall>c\<in>set ''keyid''. isWordChar c" "\<forall>c\<in>set ''alg''. isWordChar c"
    "\<forall>c\<in>set ''nonce''. isWordChar c" "\<forall>c\<in>set ''tag''. isWordChar c"
    by (simp_all add: isWordChar_def)
  have num: "\<forall>c\<in>set D. c \<noteq> CHR '';''" "hd D \<noteq> dquote"
    if "D \<noteq> []" "set D \<subseteq> decimalDigits" for D
  proof -
    show "\<forall>c\<in>set D. c \<noteq> CHR '';''" using that(2) digit_facts(2) by blast
    have "hd D \<in> decimalDigits" using that by (cases D) auto
    then show "hd D \<noteq> dquote" by (rule digit_facts(3))
  qed
  have q1: "dquote \<notin> set ''ed25519''" "dquote \<notin> set ''agent-payer-auth''"
    by (simp_all add: dquote_def)
  have "paramMatches (CHR '' '' # ?T1) = paramMatches ?T1"
    by (simp add: paramMatches_skip isWordChar_def)
  also have "\<dots> = (''created'', C) # paramMatches ?T2"
    using paramMatches_unquoted [OF _ w(1) assms(1) num [OF assms(1,2)], of "CHR '' '' # ?T2"]
    by (simp only: sk) simp
  also have "paramMatches ?T2 = (''expires'', E) # paramMatches ?T3"
    using paramMatches_unquoted [OF _ w(2) assms(3) num [OF assms(3,4)], of "CHR '' '' # ?T3"]
    by (simp only: sk) simp
  also have "paramMatches ?T3 = (''keyid'', dquote # K @ [dquote]) # paramMatches ?T4"
    using paramMatches_quoted [OF _ w(3) assms(5), of "CHR '' '' # ?T4"]
    by (simp only: sk) simp
  also have "paramMatches ?T4 = (''alg'', dquote # ''ed25519'' @ [dquote]) # paramMatches ?T5"
    using paramMatches_quoted [OF _ w(4) q1(1), of "CHR '' '' # ?T5"]
    by (simp only: sk) simp
  also have "paramMatches ?T5 = (''nonce'', dquote # N @ [dquote]) # paramMatches ?T6"
    using paramMatches_quoted [OF _ w(5) assms(6), of "CHR '' '' # ?T6"]
    by (simp only: sk) simp
  also have "paramMatches ?T6 = [(''tag'', dquote # ''agent-payer-auth'' @ [dquote])]"
    using paramMatches_quoted_end [OF _ w(6) q1(2)] by simp
  finally show ?thesis by simp
qed

subsection \<open>Parsing what the signer generates\<close>

lemma matchSigInput_generated:
  assumes "R \<noteq> []" and "\<forall>c\<in>set R. \<not> isLineTerminator c"
  shows "matchSigInput
           (''sig1=('' @ [dquote] @ ''@authority'' @ [dquote] @ '' '' @ [dquote] @ ''@path'' @ [dquote] @
            '')'' @ '';'' @ R) =
         Some ([dquote] @ ''@authority'' @ [dquote] @ '' '' @ [dquote] @ ''@path'' @ [dquote], R)"
proof -
  have tw: "takeWhile (\<lambda>x. x \<noteq> CHR 0x0A \<and> x \<noteq> CHR 0x0D) R = R"
    using assms(2) by (simp add: isLineTerminator_def)
  show ?thesis
    using assms(1) by (simp add: matchSigInputAt_def isLineTerminator_def dquote_def tw)
qed

lemma generated_components:
  "map removeQuotes
     (splitSpace ([dquote] @ ''@authority'' @ [dquote] @ '' '' @ [dquote] @ ''@path'' @ [dquote])) =
   [''@authority'', ''@path'']"
  by (simp add: removeQuotes_def dquote_def)

lemma generated_no_terminator:
  assumes "0 < c" and "0 < e" and "\<forall>x\<in>set K. \<not> isLineTerminator x"
  shows "\<forall>x\<in>set (signatureParamsOf c e K (toHex rnd)). \<not> isLineTerminator x"
proof -
  let ?s1 = "''('' @ [dquote] @ ''@authority'' @ [dquote] @ '' '' @ [dquote] @ ''@path'' @ [dquote] @
             '')'' @ ''; created=''"
  let ?s2 = "''; expires=''"
  let ?s3 = "''; keyid='' @ [dquote]"
  let ?s4 = "[dquote] @ ''; alg='' @ [dquote] @ ''ed25519'' @ [dquote] @ ''; nonce='' @ [dquote]"
  let ?s5 = "[dquote] @ ''; tag='' @ [dquote] @ ''agent-payer-auth'' @ [dquote]"
  have shape: "signatureParamsOf c e K (toHex rnd) =
      ?s1 @ numToString c @ ?s2 @ numToString e @ ?s3 @ K @ ?s4 @ toHex rnd @ ?s5"
    by (simp add: signatureParamsOf_def)
  have d: "\<forall>x\<in>set (numToString i). \<not> isLineTerminator x" if "0 < i" for i
    using numToString_digits [OF that] digit_facts(4) by blast
  have h: "\<forall>x\<in>set (toHex rnd). \<not> isLineTerminator x"
    using toHex_hex [of rnd] hex_facts(3) by blast
  have l: "\<forall>x\<in>set ?s1. \<not> isLineTerminator x" "\<forall>x\<in>set ?s2. \<not> isLineTerminator x"
    "\<forall>x\<in>set ?s3. \<not> isLineTerminator x" "\<forall>x\<in>set ?s4. \<not> isLineTerminator x"
    "\<forall>x\<in>set ?s5. \<not> isLineTerminator x"
    by (simp_all add: isLineTerminator_def dquote_def)
  have split: "(\<forall>x\<in>set (xs @ ys). \<not> isLineTerminator x) \<longleftrightarrow>
      (\<forall>x\<in>set xs. \<not> isLineTerminator x) \<and> (\<forall>x\<in>set ys. \<not> isLineTerminator x)" for xs ys
    by auto
  have "\<forall>x\<in>set (?s1 @ numToString c @ ?s2 @ numToString e @ ?s3 @ K @ ?s4 @ toHex rnd @ ?s5).
      \<not> isLineTerminator x"
    apply (subst split, rule conjI, rule l(1))
    apply (subst split, rule conjI, rule d [OF assms(1)])
    apply (subst split, rule conjI, rule l(2))
    apply (subst split, rule conjI, rule d [OF assms(2)])
    apply (subst split, rule conjI, rule l(3))
    apply (subst split, rule conjI, rule assms(3))
    apply (subst split, rule conjI, rule l(4))
    apply (subst split, rule conjI, rule h)
    apply (rule l(5))
    done
  then show ?thesis by (simp only: shape)
qed

lemma parseSignatureInput_generated:
  assumes "0 < c" and "0 < e" and "dquote \<notin> set K" and "\<forall>x\<in>set K. \<not> isLineTerminator x"
    and "trim K = K"
  shows "parseSignatureInput (''sig1='' @ signatureParamsOf c e K (toHex rnd)) =
     Inr \<lparr>components = [''@authority'', ''@path''],
          params = [(''created'', numToString c), (''expires'', numToString e), (''keyid'', K),
                    (''alg'', ''ed25519''), (''nonce'', toHex rnd), (''tag'', ''agent-payer-auth'')]\<rparr>"
proof -
  let ?R = "'' created='' @ numToString c @ ''; expires='' @ numToString e @
            ''; keyid='' @ [dquote] @ K @ [dquote] @
            ''; alg='' @ [dquote] @ ''ed25519'' @ [dquote] @ ''; nonce='' @ [dquote] @ toHex rnd @ [dquote] @
            ''; tag='' @ [dquote] @ ''agent-payer-auth'' @ [dquote]"
  have shape: "''sig1='' @ signatureParamsOf c e K (toHex rnd) =
      ''sig1=('' @ [dquote] @ ''@authority'' @ [dquote] @ '' '' @ [dquote] @ ''@path'' @ [dquote] @
      '')'' @ '';'' @ ?R"
    by (simp add: signatureParamsOf_def)
  have "\<forall>x\<in>set (signatureParamsOf c e K (toHex rnd)). \<not> isLineTerminator x"
    using assms(1,2,4) by (rule generated_no_terminator)
  then have noLT: "\<forall>x\<in>set ?R. \<not> isLineTerminator x"
    by (simp add: signatureParamsOf_def)
  have m: "matchSigInput (''sig1='' @ signatureParamsOf c e K (toHex rnd)) =
      Some ([dquote] @ ''@authority'' @ [dquote] @ '' '' @ [dquote] @ ''@path'' @ [dquote], ?R)"
    unfolding shape by (rule matchSigInput_generated [OF _ noLT]) simp
  note dc = numToString_digits [OF assms(1)]
  note de = numToString_digits [OF assms(2)]
  have hq: "dquote \<notin> set (toHex rnd)"
    using toHex_hex [of rnd] hex_facts(2) by blast
  have pm: "paramMatches ?R =
      [(''created'', numToString c), (''expires'', numToString e), (''keyid'', dquote # K @ [dquote]),
       (''alg'', dquote # ''ed25519'' @ [dquote]), (''nonce'', dquote # toHex rnd @ [dquote]),
       (''tag'', dquote # ''agent-payer-auth'' @ [dquote])]"
    using dc de assms(3) hq by (intro paramMatches_generated) simp_all
  have v1: "trim (removeQuotes (numToString i)) = numToString i" if "0 < i" for i
  proof -
    have "dquote \<notin> set (numToString i)"
      using numToString_digits [OF that] digit_facts(3) by blast
    moreover have "\<forall>x\<in>set (numToString i). \<not> isWhiteSpace x"
      using numToString_digits [OF that] digit_facts(1) by blast
    ultimately show ?thesis by (simp add: removeQuotes_id trim_id)
  qed
  have v2: "trim (removeQuotes (dquote # K @ [dquote])) = K"
    using assms(3,5) by (simp add: removeQuotes_quoted)
  have v3: "trim (removeQuotes (dquote # toHex rnd @ [dquote])) = toHex rnd"
  proof -
    have "\<forall>x\<in>set (toHex rnd). \<not> isWhiteSpace x"
      using toHex_hex [of rnd] hex_facts(1) by blast
    then show ?thesis using hq by (simp add: removeQuotes_quoted trim_id)
  qed
  have v4: "trim (removeQuotes (dquote # ''ed25519'' @ [dquote])) = ''ed25519''"
    "trim (removeQuotes (dquote # ''agent-payer-auth'' @ [dquote])) = ''agent-payer-auth''"
    by (simp_all add: removeQuotes_def trim_def isWhiteSpace_def dquote_def)
  have fl: "foldl setParam [] (paramMatches ?R) =
      [(''created'', numToString c), (''expires'', numToString e), (''keyid'', K),
       (''alg'', ''ed25519''), (''nonce'', toHex rnd), (''tag'', ''agent-payer-auth'')]"
    unfolding pm
    by (simp add: setParam_def v1 [OF assms(1)] v1 [OF assms(2)] v2 v3 v4 del: append.simps)
  show ?thesis
    unfolding parseSignatureInput_def m
    by (simp only: option.case prod.case Let_def generated_components fl) simp
qed

lemma parseSignature_generated:
  assumes "b \<noteq> []" and "CHR '':'' \<notin> set b"
  shows "parseSignature (''sig1=:'' @ b @ '':'') = Inr b"
proof -
  have nc: "\<forall>c\<in>set b. c \<noteq> CHR '':''" using assms(2) by auto
  have t: "takeWhile (\<lambda>c. c \<noteq> CHR '':'') (b @ CHR '':'' # []) = b"
    using nc by (intro takeWhile_stop) simp_all
  have d: "dropWhile (\<lambda>c. c \<noteq> CHR '':'') (b @ CHR '':'' # []) = CHR '':'' # []"
    using nc by (intro dropWhile_stop) simp_all
  show ?thesis
    using assms(1) t d by (simp add: parseSignature_def matchSignatureAt_def)
qed

lemma matchSigParams_generated:
  assumes "P \<noteq> []" and "\<forall>c\<in>set P. \<not> isLineTerminator c"
  shows "matchSigParams (''sig1='' @ P) = Some P"
proof -
  have tw: "takeWhile (\<lambda>x. \<not> isLineTerminator x) P = P"
    using assms(2) by simp
  show ?thesis
    using assms(1) by (simp add: matchSigParamsAt_def Let_def tw)
qed

subsection \<open>Unknown key\<close>

text \<open>
  Claim C6. When the headers of a request parse and the parsed \<^verbatim>\<open>keyid\<close> is absent
  from the registry (or no \<^verbatim>\<open>keyid\<close> was parsed at all), the middleware answers 401
  "Unknown agent", whatever the libraries, the clock, the timestamps and the signature
  are: the registry is consulted before any of them.
\<close>

theorem unknown_agent_rejected:
  assumes "parsedHeaders req = Some (si, ps, sv)"
    and "lookupAgent reg (map_of (params ps) ''keyid'') = None"
  shows "verifySignature L reg now req =
     reject ''Unknown agent''
       (''Agent with keyid '' @ [dquote] @ showKeyid (map_of (params ps) ''keyid'') @ [dquote] @
        '' not found in registry'')"
  using assms by (simp add: verifySignature_parsed)

theorem unknown_agent_rejected_witness:
  "parsedHeaders (demoRequest demoInput ''sig1=:010203cd:'') = Some (demoInput, demoParsed, ''010203cd'')
   \<and> lookupAgent Map.empty (map_of (params demoParsed) ''keyid'') = None
   \<and> verifySignature demoLib Map.empty 1030 (demoRequest demoInput ''sig1=:010203cd:'') =
       reject ''Unknown agent''
         (''Agent with keyid '' @ [dquote] @ ''agent-42'' @ [dquote] @ '' not found in registry'')"
proof -
  have h: "lookupAgent Map.empty (map_of (params demoParsed) ''keyid'') = None"
    by (simp add: lookupAgent_def demoParsed_def)
  have k: "showKeyid (map_of (params demoParsed) ''keyid'') = ''agent-42''"
    by (simp add: showKeyid_def demoParsed_def)
  show ?thesis
    using unknown_agent_rejected [OF demo_parsed h, where L = demoLib and now = 1030] demo_parsed h k by simp
qed

subsection \<open>Freshness\<close>

text \<open>
  Claim C4, as stated, fails: the checks run in a fixed order (a zero or missing
  timestamp, then a creation time in the future, then expiry), so a request with
  \<open>expires = now - 1\<close> whose \<open>created\<close> is beyond \<open>now + 60\<close> is answered
  "Signature from future", not "Signature expired".
\<close>

theorem freshness_counterexample:
  "parsedHeaders (demoRequest (sampleInput bothComponents ''1061'' ''999'' ''ed25519'') ''sig1=:00:'') =
     Some (sampleInput bothComponents ''1061'' ''999'' ''ed25519'',
           sampleParsed [''@authority'', ''@path''] ''1061'' ''999'' ''ed25519'', ''00'')
   \<and> lookupAgent demoRegistry (Some ''agent-42'') = Some demoAgent
   \<and> parseInt (Some ''1061'') = Some 1061
   \<and> parseInt (Some ''999'') = Some (1000 - 1)
   \<and> verifySignature demoLib demoRegistry 1000
        (demoRequest (sampleInput bothComponents ''1061'' ''999'' ''ed25519'') ''sig1=:00:'') =
       reject ''Signature from future'' ''Signature created timestamp is in the future''
   \<and> \<not> rejectedWith
         (verifySignature demoLib demoRegistry 1000
            (demoRequest (sampleInput bothComponents ''1061'' ''999'' ''ed25519'') ''sig1=:00:''))
         ''Signature expired''"
proof -
  have "verifySignature demoLib demoRegistry 1000
          (demoRequest (sampleInput bothComponents ''1061'' ''999'' ''ed25519'') ''sig1=:00:'') =
        reject ''Signature from future'' ''Signature created timestamp is in the future''"
    by (rule verifySignature_timestamps [OF sample_parsed_1061_999])
       (simp_all add: sample_keyid demo_lookup parseInt_samples checkTimestamps_def)
  then show ?thesis
    using sample_parsed_1061_999 demo_lookup parseInt_samples
    by (simp add: rejectedWith_def reject_def)
qed

text \<open>
  Claim C4, amended. For a request that reaches the timestamp checks with numeric
  \<open>created\<close> and \<open>expires\<close>: with \<open>expires = now - 1\<close> it is always rejected, and
  as "Signature expired" when neither timestamp is zero and \<open>created \<le> now + 60\<close>;
  with \<open>expires = now\<close> it is never rejected as expired; with \<open>created = now + 61\<close>
  and no zero timestamp it is rejected as "Signature from future"; with
  \<open>created = now + 60\<close> it is never rejected as from the future.
\<close>

theorem freshness_boundary:
  assumes "parsedHeaders req = Some (si, ps, sv)"
    and "lookupAgent reg (map_of (params ps) ''keyid'') = Some agent"
    and "parseInt (map_of (params ps) ''created'') = Some c"
    and "parseInt (map_of (params ps) ''expires'') = Some e"
  shows "(e = now - 1 \<longrightarrow>
            rejected (verifySignature L reg now req)
            \<and> (c \<noteq> 0 \<and> e \<noteq> 0 \<and> c \<le> now + 60 \<longrightarrow>
                 verifySignature L reg now req = reject ''Signature expired'' ''Signature has expired''))
       \<and> (e = now \<longrightarrow> \<not> rejectedWith (verifySignature L reg now req) ''Signature expired'')
       \<and> (c = now + 61 \<and> c \<noteq> 0 \<and> e \<noteq> 0 \<longrightarrow>
            verifySignature L reg now req =
              reject ''Signature from future'' ''Signature created timestamp is in the future'')
       \<and> (c = now + 60 \<longrightarrow> \<not> rejectedWith (verifySignature L reg now req) ''Signature from future'')"
  using assms
  by (simp add: verifySignature_parsed checkTimestamps_def rejected_def rejectedWith_def reject_def
        caught_def split: sum.splits)

theorem freshness_boundary_witness:
  "parsedHeaders (demoRequest demoInput ''sig1=:010203cd:'') = Some (demoInput, demoParsed, ''010203cd'')
   \<and> lookupAgent demoRegistry (map_of (params demoParsed) ''keyid'') = Some demoAgent
   \<and> parseInt (map_of (params demoParsed) ''created'') = Some 1000
   \<and> parseInt (map_of (params demoParsed) ''expires'') = Some 1060
   \<and> verifySignature demoLib demoRegistry 1061 (demoRequest demoInput ''sig1=:010203cd:'') =
       reject ''Signature expired'' ''Signature has expired''
   \<and> \<not> rejectedWith (verifySignature demoLib demoRegistry 1060 (demoRequest demoInput ''sig1=:010203cd:''))
         ''Signature expired''
   \<and> verifySignature demoLib demoRegistry 939 (demoRequest demoInput ''sig1=:010203cd:'') =
       reject ''Signature from future'' ''Signature created timestamp is in the future''
   \<and> \<not> rejectedWith (verifySignature demoLib demoRegistry 940 (demoRequest demoInput ''sig1=:010203cd:''))
         ''Signature from future''"
proof -
  have a: "lookupAgent demoRegistry (map_of (params demoParsed) ''keyid'') = Some demoAgent"
    by (simp add: demo_keyid demo_lookup)
  have c: "parseInt (map_of (params demoParsed) ''created'') = Some 1000"
    by (simp add: demo_keyid parseInt_samples)
  have e: "parseInt (map_of (params demoParsed) ''expires'') = Some 1060"
    by (simp add: demo_keyid parseInt_samples)
  show ?thesis
    using freshness_boundary [OF demo_parsed a c e, where now = 1061 and L = demoLib]
      freshness_boundary [OF demo_parsed a c e, where now = 1060 and L = demoLib]
      freshness_boundary [OF demo_parsed a c e, where now = 939 and L = demoLib]
      freshness_boundary [OF demo_parsed a c e, where now = 940 and L = demoLib]
      demo_parsed a c e
    by simp
qed

subsection \<open>The validity window\<close>

text \<open>
  Claim C5, as stated, fails for the same reason: the length of the window is checked
  last, so a request with \<open>expires - created = 301\<close> that has already expired is
  answered "Signature expired".
\<close>

theorem validity_window_counterexample:
  "parsedHeaders (demoRequest (sampleInput bothComponents ''1000'' ''1301'' ''ed25519'') ''sig1=:00:'') =
     Some (sampleInput bothComponents ''1000'' ''1301'' ''ed25519'',
           sampleParsed [''@authority'', ''@path''] ''1000'' ''1301'' ''ed25519'', ''00'')
   \<and> lookupAgent demoRegistry (Some ''agent-42'') = Some demoAgent
   \<and> parseInt (Some ''1000'') = Some 1000
   \<and> parseInt (Some ''1301'') = Some (1000 + 301)
   \<and> verifySignature demoLib demoRegistry 2000
        (demoRequest (sampleInput bothComponents ''1000'' ''1301'' ''ed25519'') ''sig1=:00:'') =
       reject ''Signature expired'' ''Signature has expired''
   \<and> \<not> rejectedWith
         (verifySignature demoLib demoRegistry 2000
            (demoRequest (sampleInput bothComponents ''1000'' ''1301'' ''ed25519'') ''sig1=:00:''))
         ''Signature validity too long''"
proof -
  have "verifySignature demoLib demoRegistry 2000
          (demoRequest (sampleInput bothComponents ''1000'' ''1301'' ''ed25519'') ''sig1=:00:'') =
        reject ''Signature expired'' ''Signature has expired''"
    by (rule verifySignature_timestamps [OF sample_parsed_1000_1301])
       (simp_all add: sample_keyid demo_lookup parseInt_samples checkTimestamps_def)
  then show ?thesis
    using sample_parsed_1000_1301 demo_lookup parseInt_samples
    by (simp add: rejectedWith_def reject_def)
qed

text \<open>
  Claim C5, amended. For a request that reaches the timestamp checks with numeric
  \<open>created\<close> and \<open>expires\<close>: with \<open>expires - created = 301\<close> it is always
  rejected, and as "Signature validity too long" when the earlier checks pass (no zero
  timestamp, \<open>created \<le> now + 60\<close>, \<open>now \<le> expires\<close>); with
  \<open>expires - created = 300\<close> it is never rejected for the length of its window.
\<close>

theorem validity_window_cap:
  assumes "parsedHeaders req = Some (si, ps, sv)"
    and "lookupAgent reg (map_of (params ps) ''keyid'') = Some agent"
    and "parseInt (map_of (params ps) ''created'') = Some c"
    and "parseInt (map_of (params ps) ''expires'') = Some e"
  shows "(e - c = 301 \<longrightarrow>
            rejected (verifySignature L reg now req)
            \<and> (c \<noteq> 0 \<and> e \<noteq> 0 \<and> c \<le> now + 60 \<and> now \<le> e \<longrightarrow>
                 verifySignature L reg now req =
                   reject ''Signature validity too long'' ''Signature validity period exceeds 5 minutes''))
       \<and> (e - c = 300 \<longrightarrow>
            \<not> rejectedWith (verifySignature L reg now req) ''Signature validity too long'')"
  using assms
  by (simp add: verifySignature_parsed checkTimestamps_def rejected_def rejectedWith_def reject_def
        caught_def split: sum.splits)

theorem validity_window_cap_witness:
  "parsedHeaders (demoRequest (sampleInput bothComponents ''1000'' ''1301'' ''ed25519'') ''sig1=:00:'') =
     Some (sampleInput bothComponents ''1000'' ''1301'' ''ed25519'',
           sampleParsed [''@authority'', ''@path''] ''1000'' ''1301'' ''ed25519'', ''00'')
   \<and> parsedHeaders (demoRequest (sampleInput bothComponents ''1000'' ''1300'' ''ed25519'') ''sig1=:00:'') =
     Some (sampleInput bothComponents ''1000'' ''1300'' ''ed25519'',
           sampleParsed [''@authority'', ''@path''] ''1000'' ''1300'' ''ed25519'', ''00'')
   \<and> lookupAgent demoRegistry (Some ''agent-42'') = Some demoAgent
   \<and> parseInt (Some ''1000'') = Some 1000
   \<and> parseInt (Some ''1301'') = Some 1301
   \<and> parseInt (Some ''1300'') = Some 1300
   \<and> verifySignature demoLib demoRegistry 1030
        (demoRequest (sampleInput bothComponents ''1000'' ''1301'' ''ed25519'') ''sig1=:00:'') =
       reject ''Signature validity too long'' ''Signature validity period exceeds 5 minutes''
   \<and> \<not> rejectedWith
         (verifySignature demoLib demoRegistry 1030
            (demoRequest (sampleInput bothComponents ''1000'' ''1300'' ''ed25519'') ''sig1=:00:''))
         ''Signature validity too long''"
proof -
  have a: "lookupAgent demoRegistry
             (map_of (params (sampleParsed [''@authority'', ''@path''] ''1000'' x ''ed25519'')) ''keyid'') =
           Some demoAgent" for x
    by (simp add: sample_keyid demo_lookup)
  have c: "parseInt (map_of (params (sampleParsed [''@authority'', ''@path''] ''1000'' x ''ed25519''))
             ''created'') = Some 1000" for x
    by (simp add: sample_keyid parseInt_samples)
  have e1: "parseInt (map_of (params (sampleParsed [''@authority'', ''@path''] ''1000'' ''1301'' ''ed25519''))
              ''expires'') = Some 1301"
    by (simp add: sample_keyid parseInt_samples)
  have e0: "parseInt (map_of (params (sampleParsed [''@authority'', ''@path''] ''1000'' ''1300'' ''ed25519''))
              ''expires'') = Some 1300"
    by (simp add: sample_keyid parseInt_samples)
  show ?thesis
    using validity_window_cap [OF sample_parsed_1000_1301 a c e1, where now = 1030 and L = demoLib]
      validity_window_cap [OF sample_parsed_1000_1300 a c e0, where now = 1030 and L = demoLib]
      sample_parsed_1000_1301 sample_parsed_1000_1300 demo_lookup parseInt_samples
    by simp
qed

subsection \<open>The Signature-Agent header\<close>

text \<open>
  Claim C9. Two requests that agree in every field the middleware reads and in every
  header but \<^verbatim>\<open>Signature-Agent\<close> (any value, or none) get the same outcome, with the
  same agent attached. The agent attached on acceptance is the parsed \<^verbatim>\<open>keyid\<close> and
  the name of the registry's entry for it.
\<close>

theorem signature_agent_ignored:
  assumes "path r2 = path r1" and "reqMethod r2 = reqMethod r1"
    and "originalUrl r2 = originalUrl r1" and "url r2 = url r1"
    and "headers r2 = (headers r1)(''signature-agent'' := v)"
  shows "verifySignature L reg now r2 = verifySignature L reg now r1
     \<and> (\<forall>a. verifySignature L reg now r1 = Next (Some a) \<longrightarrow>
          (\<exists>si ps agent.
              headers r1 ''signature-input'' = Some si \<and> parseSignatureInput si = Inr ps
              \<and> map_of (params ps) ''keyid'' = Some (agent_id a)
              \<and> reg (agent_id a) = Some agent \<and> agent_name a = name agent))"
proof
  have c: "componentLine r2 = componentLine r1"
    by (rule ext) (simp add: componentLine_def assms)
  have b: "buildSignatureBase r2 = buildSignatureBase r1"
    by (intro ext) (simp add: buildSignatureBase_def c)
  show "verifySignature L reg now r2 = verifySignature L reg now r1"
    by (simp add: verifySignature_def Let_def b assms
          cong: sum.case_cong option.case_cong if_cong)
next
  show "\<forall>a. verifySignature L reg now r1 = Next (Some a) \<longrightarrow>
          (\<exists>si ps agent.
              headers r1 ''signature-input'' = Some si \<and> parseSignatureInput si = Inr ps
              \<and> map_of (params ps) ''keyid'' = Some (agent_id a)
              \<and> reg (agent_id a) = Some agent \<and> agent_name a = name agent)"
    by (auto simp: verifySignature_def Let_def truthy_def reject_def caught_def lookupAgent_def
          checkTimestamps_def
          split: if_splits option.splits sum.splits)
qed

theorem signature_agent_ignored_witness:
  "path (withSignatureAgent (demoRequest demoInput ''sig1=:010203cd:'') (Some ''mallory'')) =
     path (demoRequest demoInput ''sig1=:010203cd:'')
   \<and> headers (withSignatureAgent (demoRequest demoInput ''sig1=:010203cd:'') (Some ''mallory'')) =
       (headers (demoRequest demoInput ''sig1=:010203cd:''))(''signature-agent'' := Some ''mallory'')
   \<and> headers (demoRequest demoInput ''sig1=:010203cd:'') ''signature-agent'' = None
   \<and> verifySignature demoLib demoRegistry 1030
        (withSignatureAgent (demoRequest demoInput ''sig1=:010203cd:'') (Some ''mallory'')) =
       verifySignature demoLib demoRegistry 1030 (demoRequest demoInput ''sig1=:010203cd:'')
   \<and> verifySignature demoLib demoRegistry 1030 (demoRequest demoInput ''sig1=:010203cd:'') =
       Next (Some \<lparr>agent_id = ''agent-42'', agent_name = ''Demo Agent''\<rparr>)
   \<and> (\<exists>si ps agent.
         headers (demoRequest demoInput ''sig1=:010203cd:'') ''signature-input'' = Some si
         \<and> parseSignatureInput si = Inr ps
         \<and> map_of (params ps) ''keyid'' = Some ''agent-42''
         \<and> demoRegistry ''agent-42'' = Some agent \<and> ''Demo Agent'' = name agent)"
proof -
  let ?r = "demoRequest demoInput ''sig1=:010203cd:''"
  have h: "headers (withSignatureAgent ?r (Some ''mallory'')) =
      (headers ?r)(''signature-agent'' := Some ''mallory'')"
    by (simp add: withSignatureAgent_def)
  have n: "headers ?r ''signature-agent'' = None"
    by (simp add: demoRequest_def)
  have p: "path (withSignatureAgent ?r (Some ''mallory'')) = path ?r"
    "reqMethod (withSignatureAgent ?r (Some ''mallory'')) = reqMethod ?r"
    "originalUrl (withSignatureAgent ?r (Some ''mallory'')) = originalUrl ?r"
    "url (withSignatureAgent ?r (Some ''mallory'')) = url ?r"
    by (simp_all add: withSignatureAgent_def)
  show ?thesis
    using signature_agent_ignored [OF p h, where L = demoLib and reg = demoRegistry and now = 1030]
      demo_accepted h n p
    by simp
qed

subsection \<open>Registration\<close>

text \<open>
  Claim C7. Registering a \<^verbatim>\<open>keyid\<close> a second time is no error: the call returns
  \<^verbatim>\<open>{ keyid, name }\<close> as always, the registry then resolves the \<^verbatim>\<open>keyid\<close> to the
  second entry and is the registry the second registration alone would have given, and
  a request signed under that \<^verbatim>\<open>keyid\<close> that reaches the cryptographic check is
  verified against the second public key and accepted under the second name.
\<close>

theorem registration_last_write_wins:
  assumes "parsedHeaders req = Some (si, ps, sv)"
    and "map_of (params ps) ''keyid'' = Some k"
    and "checkTimestamps (parseInt (map_of (params ps) ''created''))
           (parseInt (map_of (params ps) ''expires'')) now = None"
    and "buildSignatureBase req (components ps) ps si = Inr signatureBase"
    and "reg1 = fst (registerAgent reg k n1 pk1 a1 t1)"
    and "reg2 = fst (registerAgent reg1 k n2 pk2 a2 t2)"
  shows "snd (registerAgent reg1 k n2 pk2 a2 t2) = \<lparr>reg_keyid = k, reg_name = n2\<rparr>
     \<and> reg2 k = Some \<lparr>name = n2, publicKey = pk2,
                       algorithm = (case a2 of None \<Rightarrow> ''ed25519'' | Some a \<Rightarrow> a),
                       registeredAt = t2\<rparr>
     \<and> reg2 = fst (registerAgent reg k n2 pk2 a2 t2)
     \<and> verifySignature L reg2 now req =
         (if verifyEd25519Signature L signatureBase sv pk2
          then Next (Some \<lparr>agent_id = k, agent_name = n2\<rparr>)
          else reject ''Invalid signature'' ''Signature verification failed'')"
proof -
  have e: "reg2 k = Some \<lparr>name = n2, publicKey = pk2,
                       algorithm = (case a2 of None \<Rightarrow> ''ed25519'' | Some a \<Rightarrow> a),
                       registeredAt = t2\<rparr>"
    by (simp add: assms(6) registerAgent_def)
  have "verifySignature L reg2 now req =
         (if verifyEd25519Signature L signatureBase sv pk2
          then Next (Some \<lparr>agent_id = k, agent_name = n2\<rparr>)
          else reject ''Invalid signature'' ''Signature verification failed'')"
    using verifySignature_crypto [where reg = reg2 and L = L, OF assms(1) assms(2) e assms(3) assms(4)]
    by simp
  then show ?thesis
    using e by (simp add: assms(5,6) registerAgent_def)
qed

theorem registration_last_write_wins_witness:
  "parsedHeaders (demoRequest demoInput ''sig1=:010203cd:'') = Some (demoInput, demoParsed, ''010203cd'')
   \<and> map_of (params demoParsed) ''keyid'' = Some ''agent-42''
   \<and> checkTimestamps (parseInt (map_of (params demoParsed) ''created''))
        (parseInt (map_of (params demoParsed) ''expires'')) 1030 = None
   \<and> buildSignatureBase (demoRequest demoInput ''sig1=:010203cd:'') (components demoParsed)
        demoParsed demoInput = Inr demoBase
   \<and> verifySignature demoLib
        (fst (registerAgent (fst (registerAgent Map.empty ''agent-42'' ''First'' ''ffff'' None ''t1''))
                ''agent-42'' ''Second'' ''010203'' None ''t2''))
        1030 (demoRequest demoInput ''sig1=:010203cd:'') =
       Next (Some \<lparr>agent_id = ''agent-42'', agent_name = ''Second''\<rparr>)
   \<and> verifySignature demoLib
        (fst (registerAgent (fst (registerAgent Map.empty ''agent-42'' ''Second'' ''010203'' None ''t2''))
                ''agent-42'' ''First'' ''ffff'' None ''t1''))
        1030 (demoRequest demoInput ''sig1=:010203cd:'') =
       reject ''Invalid signature'' ''Signature verification failed''"
proof -
  have t: "checkTimestamps (parseInt (map_of (params demoParsed) ''created''))
        (parseInt (map_of (params demoParsed) ''expires'')) 1030 = None"
    by (simp add: demo_keyid demo_timestamps)
  have b: "buildSignatureBase (demoRequest demoInput ''sig1=:010203cd:'') (components demoParsed)
        demoParsed demoInput = Inr demoBase"
    by (simp add: demo_base demo_components)
  have w1: "verifySignature demoLib
        (fst (registerAgent (fst (registerAgent Map.empty ''agent-42'' ''First'' ''ffff'' None ''t1''))
                ''agent-42'' ''Second'' ''010203'' None ''t2''))
        1030 (demoRequest demoInput ''sig1=:010203cd:'') =
       Next (Some \<lparr>agent_id = ''agent-42'', agent_name = ''Second''\<rparr>)"
    using registration_last_write_wins [OF demo_parsed demo_keyid(1) t b refl refl,
        where L = demoLib and reg = Map.empty and ?n1.0 = "''First''" and ?pk1.0 = "''ffff''"
          and ?a1.0 = None and ?t1.0 = "''t1''" and ?n2.0 = "''Second''" and ?pk2.0 = "''010203''"
          and ?a2.0 = None and ?t2.0 = "''t2''", THEN conjunct2, THEN conjunct2, THEN conjunct2]
      demo_signature_valid
    by simp
  have w2: "verifySignature demoLib
        (fst (registerAgent (fst (registerAgent Map.empty ''agent-42'' ''Second'' ''010203'' None ''t2''))
                ''agent-42'' ''First'' ''ffff'' None ''t1''))
        1030 (demoRequest demoInput ''sig1=:010203cd:'') =
       reject ''Invalid signature'' ''Signature verification failed''"
    using registration_last_write_wins [OF demo_parsed demo_keyid(1) t b refl refl,
        where L = demoLib and reg = Map.empty and ?n1.0 = "''Second''" and ?pk1.0 = "''010203''"
          and ?a1.0 = None and ?t1.0 = "''t2''" and ?n2.0 = "''First''" and ?pk2.0 = "''ffff''"
          and ?a2.0 = None and ?t2.0 = "''t1''", THEN conjunct2, THEN conjunct2, THEN conjunct2]
      demo_signature_invalid
    by simp
  show ?thesis
    using demo_parsed demo_keyid(1) t b w1 w2 by blast
qed

subsection \<open>Components that are not recognised\<close>

text \<open>
  Claim C10. The base of a component list is the base of its components
  \<^verbatim>\<open>@authority\<close> and \<^verbatim>\<open>@path\<close>: every other id (the empty id of an empty list
  too) adds no line and causes no rejection. When no component of the parsed list is
  one of the two, the base is the \<^verbatim>\<open>@signature-params\<close> line alone, and a request
  that passes the timestamp checks is accepted exactly when the signature verifies over
  that line.
\<close>

theorem unrecognized_components_skipped:
  assumes "parsedHeaders req = Some (si, ps, sv)"
    and "map_of (params ps) ''keyid'' = Some k"
    and "reg k = Some agent"
    and "checkTimestamps (parseInt (map_of (params ps) ''created''))
           (parseInt (map_of (params ps) ''expires'')) now = None"
    and "matchSigParams si = Some signatureParams"
    and "filter supported (components ps) = []"
  shows "buildSignatureBase req comps ps' si' = buildSignatureBase req (filter supported comps) ps' si'
     \<and> buildSignatureBase req (components ps) ps si =
           Inr ([dquote] @ ''@signature-params'' @ [dquote] @ '': '' @ signatureParams)
     \<and> verifySignature L reg now req =
           (if verifyEd25519Signature L
                 ([dquote] @ ''@signature-params'' @ [dquote] @ '': '' @ signatureParams)
                 sv (publicKey agent)
            then Next (Some \<lparr>agent_id = k, agent_name = name agent\<rparr>)
            else reject ''Invalid signature'' ''Signature verification failed'')"
proof -
  have a: "buildSignatureBase req comps ps' si' = buildSignatureBase req (filter supported comps) ps' si'"
    by (simp add: buildSignatureBase_def component_lines_filter)
  have b: "buildSignatureBase req (components ps) ps si =
           Inr ([dquote] @ ''@signature-params'' @ [dquote] @ '': '' @ signatureParams)"
    using assms(5,6) by (simp add: buildSignatureBase_def component_lines_filter)
  show ?thesis
    using a b verifySignature_crypto [where reg = reg and L = L, OF assms(1) assms(2) assms(3) assms(4) b]
    by simp
qed

theorem unrecognized_components_skipped_witness:
  "parsedHeaders (demoRequest (sampleInput otherComponents ''1000'' ''1060'' ''ed25519'') ''sig1=:01020394:'') =
     Some (sampleInput otherComponents ''1000'' ''1060'' ''ed25519'',
           sampleParsed [''@method'', ''content-type''] ''1000'' ''1060'' ''ed25519'', ''01020394'')
   \<and> parsedHeaders (demoRequest (sampleInput [] ''1000'' ''1060'' ''ed25519'') ''sig1=:0102037c:'') =
     Some (sampleInput [] ''1000'' ''1060'' ''ed25519'',
           sampleParsed [[]] ''1000'' ''1060'' ''ed25519'', ''0102037c'')
   \<and> demoRegistry ''agent-42'' = Some demoAgent
   \<and> filter supported [''@method'', ''content-type''] = []
   \<and> filter supported [[]] = []
   \<and> buildSignatureBase (demoRequest (sampleInput otherComponents ''1000'' ''1060'' ''ed25519'') ''sig1=:01020394:'')
        [''@method'', ''content-type'']
        (sampleParsed [''@method'', ''content-type''] ''1000'' ''1060'' ''ed25519'')
        (sampleInput otherComponents ''1000'' ''1060'' ''ed25519'') =
       Inr ([dquote] @ ''@signature-params'' @ [dquote] @ '': '' @
            drop 5 (sampleInput otherComponents ''1000'' ''1060'' ''ed25519''))
   \<and> verifySignature demoLib demoRegistry 1030
        (demoRequest (sampleInput otherComponents ''1000'' ''1060'' ''ed25519'') ''sig1=:01020394:'') =
       Next (Some \<lparr>agent_id = ''agent-42'', agent_name = ''Demo Agent''\<rparr>)
   \<and> verifySignature demoLib demoRegistry 1030
        (demoRequest (sampleInput [] ''1000'' ''1060'' ''ed25519'') ''sig1=:0102037c:'') =
       Next (Some \<lparr>agent_id = ''agent-42'', agent_name = ''Demo Agent''\<rparr>)"
proof -
  have t: "checkTimestamps (parseInt (map_of (params (sampleParsed cs ''1000'' ''1060'' ''ed25519'')) ''created''))
        (parseInt (map_of (params (sampleParsed cs ''1000'' ''1060'' ''ed25519'')) ''expires'')) 1030 = None" for cs
    by (simp add: sample_keyid demo_timestamps)
  have f1: "filter supported (components (sampleParsed [''@method'', ''content-type''] ''1000'' ''1060'' ''ed25519'')) = []"
    by (simp add: sample_components supported_def)
  have f2: "filter supported (components (sampleParsed [[]] ''1000'' ''1060'' ''ed25519'')) = []"
    by (simp add: sample_components supported_def)
  note w1 = unrecognized_components_skipped [where reg = demoRegistry and L = demoLib,
      OF sample_parsed_other sample_keyid(1) demo_agent t sample_params_other f1]
  note w2 = unrecognized_components_skipped [where reg = demoRegistry and L = demoLib,
      OF sample_parsed_none sample_keyid(1) demo_agent t sample_params_none f2]
  have b1: "buildSignatureBase (demoRequest (sampleInput otherComponents ''1000'' ''1060'' ''ed25519'') ''sig1=:01020394:'')
        [''@method'', ''content-type'']
        (sampleParsed [''@method'', ''content-type''] ''1000'' ''1060'' ''ed25519'')
        (sampleInput otherComponents ''1000'' ''1060'' ''ed25519'') =
       Inr ([dquote] @ ''@signature-params'' @ [dquote] @ '': '' @
            drop 5 (sampleInput otherComponents ''1000'' ''1060'' ''ed25519''))"
    using w1 [THEN conjunct2, THEN conjunct1] by (simp add: sample_components)
  have v1: "verifySignature demoLib demoRegistry 1030
        (demoRequest (sampleInput otherComponents ''1000'' ''1060'' ''ed25519'') ''sig1=:01020394:'') =
       Next (Some \<lparr>agent_id = ''agent-42'', agent_name = ''Demo Agent''\<rparr>)"
    using w1 [THEN conjunct2, THEN conjunct2] sample_valid_other by (simp add: demoAgent_def)
  have v2: "verifySignature demoLib demoRegistry 1030
        (demoRequest (sampleInput [] ''1000'' ''1060'' ''ed25519'') ''sig1=:0102037c:'') =
       Next (Some \<lparr>agent_id = ''agent-42'', agent_name = ''Demo Agent''\<rparr>)"
    using w2 [THEN conjunct2, THEN conjunct2] sample_valid_none by (simp add: demoAgent_def)
  have g1: "filter supported [''@method'', ''content-type''] = []" by (simp add: supported_def)
  have g2: "filter supported [[]] = []" by (simp add: supported_def)
  show ?thesis
    using sample_parsed_other sample_parsed_none demo_agent g1 g2 b1 v1 v2 by blast
qed

subsection \<open>The declared algorithm\<close>

text \<open>
  Claim C3, as stated, fails: the middleware never compares the \<^verbatim>\<open>alg\<close> parameter
  with the algorithm of the registry's entry, and has no answer for a mismatch. A request
  that declares \<^verbatim>\<open>rsa-pss-sha256\<close> for a key registered as \<^verbatim>\<open>ed25519\<close> is
  accepted when its signature verifies.
\<close>

theorem algorithm_mismatch_counterexample:
  "parsedHeaders (demoRequest (sampleInput bothComponents ''1000'' ''1060'' ''rsa-pss-sha256'') ''sig1=:010203d4:'') =
     Some (sampleInput bothComponents ''1000'' ''1060'' ''rsa-pss-sha256'',
           sampleParsed [''@authority'', ''@path''] ''1000'' ''1060'' ''rsa-pss-sha256'', ''010203d4'')
   \<and> map_of (params (sampleParsed [''@authority'', ''@path''] ''1000'' ''1060'' ''rsa-pss-sha256'')) ''alg'' =
       Some ''rsa-pss-sha256''
   \<and> demoRegistry ''agent-42'' = Some demoAgent
   \<and> algorithm demoAgent = ''ed25519''
   \<and> verifySignature demoLib demoRegistry 1030
        (demoRequest (sampleInput bothComponents ''1000'' ''1060'' ''rsa-pss-sha256'') ''sig1=:010203d4:'') =
       Next (Some \<lparr>agent_id = ''agent-42'', agent_name = ''Demo Agent''\<rparr>)"
  using sample_parsed_rsa sample_keyid(4) demo_agent sample_accepted_rsa
  by (simp add: demoAgent_def)

text \<open>
  Claim C3, amended. For a request whose headers parse and whose \<^verbatim>\<open>keyid\<close> resolves
  to a registered agent, a declared \<^verbatim>\<open>alg\<close> that differs from the registry's
  algorithm (or is absent) is not a reason to reject: the outcome is the one the same
  registry with any other algorithm on file would give, and the request is accepted
  whenever the timestamp checks pass and the signature verifies, as Ed25519, over the
  rebuilt base under the registered key.
\<close>

theorem algorithm_not_compared:
  assumes "parsedHeaders req = Some (si, ps, sv)"
    and "map_of (params ps) ''keyid'' = Some k"
    and "reg k = Some agent"
    and "map_of (params ps) ''alg'' \<noteq> Some (algorithm agent)"
  shows "verifySignature L (reg(k \<mapsto> agent\<lparr>algorithm := a\<rparr>)) now req = verifySignature L reg now req
     \<and> (checkTimestamps (parseInt (map_of (params ps) ''created''))
           (parseInt (map_of (params ps) ''expires'')) now = None
         \<and> buildSignatureBase req (components ps) ps si = Inr signatureBase
         \<and> verifyEd25519Signature L signatureBase sv (publicKey agent)
         \<longrightarrow> verifySignature L reg now req = Next (Some \<lparr>agent_id = k, agent_name = name agent\<rparr>))"
  using assms
  by (auto simp: verifySignature_parsed lookupAgent_def split: option.splits sum.splits)

theorem algorithm_not_compared_witness:
  "parsedHeaders (demoRequest (sampleInput bothComponents ''1000'' ''1060'' ''rsa-pss-sha256'') ''sig1=:010203d4:'') =
     Some (sampleInput bothComponents ''1000'' ''1060'' ''rsa-pss-sha256'',
           sampleParsed [''@authority'', ''@path''] ''1000'' ''1060'' ''rsa-pss-sha256'', ''010203d4'')
   \<and> map_of (params (sampleParsed [''@authority'', ''@path''] ''1000'' ''1060'' ''rsa-pss-sha256'')) ''keyid'' =
       Some ''agent-42''
   \<and> demoRegistry ''agent-42'' = Some demoAgent
   \<and> map_of (params (sampleParsed [''@authority'', ''@path''] ''1000'' ''1060'' ''rsa-pss-sha256'')) ''alg'' \<noteq>
       Some (algorithm demoAgent)
   \<and> verifySignature demoLib (demoRegistry(''agent-42'' \<mapsto> demoAgent\<lparr>algorithm := ''rsa-pss-sha256''\<rparr>)) 1030
        (demoRequest (sampleInput bothComponents ''1000'' ''1060'' ''rsa-pss-sha256'') ''sig1=:010203d4:'') =
       verifySignature demoLib demoRegistry 1030
        (demoRequest (sampleInput bothComponents ''1000'' ''1060'' ''rsa-pss-sha256'') ''sig1=:010203d4:'')
   \<and> verifySignature demoLib demoRegistry 1030
        (demoRequest (sampleInput bothComponents ''1000'' ''1060'' ''rsa-pss-sha256'') ''sig1=:010203d4:'') =
       Next (Some \<lparr>agent_id = ''agent-42'', agent_name = ''Demo Agent''\<rparr>)"
proof -
  have m: "map_of (params (sampleParsed [''@authority'', ''@path''] ''1000'' ''1060'' ''rsa-pss-sha256'')) ''alg'' \<noteq>
       Some (algorithm demoAgent)"
    by (simp add: sample_keyid demoAgent_def)
  note w = algorithm_not_compared [where reg = demoRegistry and L = demoLib and now = 1030
      and a = "''rsa-pss-sha256''"
      and signatureBase = "signatureBaseOf ''localhost:8000'' ''/api/products?q=laptop''
          (drop 5 (sampleInput bothComponents ''1000'' ''1060'' ''rsa-pss-sha256''))",
      OF sample_parsed_rsa sample_keyid(1) demo_agent m]
  have v: "verifySignature demoLib demoRegistry 1030
        (demoRequest (sampleInput bothComponents ''1000'' ''1060'' ''rsa-pss-sha256'') ''sig1=:010203d4:'') =
       Next (Some \<lparr>agent_id = ''agent-42'', agent_name = ''Demo Agent''\<rparr>)"
    using w [THEN conjunct2]
    by (simp add: sample_keyid sample_components demo_timestamps sample_base_rsa sample_valid_rsa demoAgent_def)
  show ?thesis
    using sample_parsed_rsa sample_keyid(1) demo_agent m w [THEN conjunct1] v by blast
qed

subsection \<open>Internal failures\<close>

text \<open>
  Claim C8, as stated, fails: an exception of the Ed25519 library is caught inside
  \<^verbatim>\<open>verifyEd25519Signature\<close> and the request is answered 401 "Invalid signature",
  the very answer a request with a wrong signature gets.
\<close>

theorem internal_failure_counterexample:
  "ed25519_verify throwingLib (fromBase64 throwingLib ''010203cd'') (textEncode throwingLib demoBase)
     (fromHex ''010203'') = None
   \<and> verifySignature throwingLib demoRegistry 1030 (demoRequest demoInput ''sig1=:010203cd:'') =
       reject ''Invalid signature'' ''Signature verification failed''
   \<and> verifySignature demoLib demoRegistry 1030 (demoRequest demoInput ''sig1=:00:'') =
       reject ''Invalid signature'' ''Signature verification failed''"
proof -
  have b: "buildSignatureBase (demoRequest demoInput ''sig1=:010203cd:'') (components demoParsed)
          demoParsed demoInput = Inr demoBase"
    by (simp add: demo_base demo_components)
  have "verifySignature throwingLib demoRegistry 1030 (demoRequest demoInput ''sig1=:010203cd:'') =
       reject ''Invalid signature'' ''Signature verification failed''"
    using verifySignature_crypto [where reg = demoRegistry and now = 1030 and L = throwingLib,
        OF demo_parsed demo_keyid(1) demo_agent _ b]
    by (simp add: demo_keyid demo_timestamps verifyEd25519Signature_def throwingLib_def)
  then show ?thesis
    using demo_rejected_bad_signature by (simp add: throwingLib_def)
qed

text \<open>
  Claim C8, amended. When a request reaches the cryptographic check and the library
  throws there (or reports the signature wrong), the answer is 401 "Invalid signature";
  and every answer of the middleware is a 401 with one of its eight error texts, none
  of them set apart for internal failures.
\<close>

theorem internal_failure_not_distinguished:
  assumes "parsedHeaders req = Some (si, ps, sv)"
    and "map_of (params ps) ''keyid'' = Some k"
    and "reg k = Some agent"
    and "checkTimestamps (parseInt (map_of (params ps) ''created''))
           (parseInt (map_of (params ps) ''expires'')) now = None"
    and "buildSignatureBase req (components ps) ps si = Inr signatureBase"
    and "ed25519_verify L (fromBase64 L sv) (textEncode L signatureBase) (fromHex (publicKey agent)) \<noteq> Some True"
  shows "verifySignature L reg now req = reject ''Invalid signature'' ''Signature verification failed''
     \<and> (\<forall>L' reg' now' req' r. verifySignature L' reg' now' req' = Reply r \<longrightarrow>
           status r = 401 \<and> error r \<in> set errorTexts)"
proof -
  have "\<not> verifyEd25519Signature L signatureBase sv (publicKey agent)"
    using assms(6) by (auto simp: verifyEd25519Signature_def split: option.splits)
  then show ?thesis
    using verifySignature_crypto [where reg = reg and L = L, OF assms(1-5)] reply_taxonomy
    by auto
qed

theorem internal_failure_not_distinguished_witness:
  "parsedHeaders (demoRequest demoInput ''sig1=:010203cd:'') = Some (demoInput, demoParsed, ''010203cd'')
   \<and> map_of (params demoParsed) ''keyid'' = Some ''agent-42''
   \<and> demoRegistry ''agent-42'' = Some demoAgent
   \<and> checkTimestamps (parseInt (map_of (params demoParsed) ''created''))
        (parseInt (map_of (params demoParsed) ''expires'')) 1030 = None
   \<and> buildSignatureBase (demoRequest demoInput ''sig1=:010203cd:'') (components demoParsed)
        demoParsed demoInput = Inr demoBase
   \<and> ed25519_verify throwingLib (fromBase64 throwingLib ''010203cd'') (textEncode throwingLib demoBase)
        (fromHex (publicKey demoAgent)) = None
   \<and> verifySignature throwingLib demoRegistry 1030 (demoRequest demoInput ''sig1=:010203cd:'') =
       reject ''Invalid signature'' ''Signature verification failed''
   \<and> status \<lparr>status = 401, error = ''Invalid signature'', message = ''Signature verification failed''\<rparr> = 401
   \<and> error \<lparr>status = 401, error = ''Invalid signature'', message = ''Signature verification failed''\<rparr>
       \<in> set errorTexts"
proof -
  have t: "checkTimestamps (parseInt (map_of (params demoParsed) ''created''))
        (parseInt (map_of (params demoParsed) ''expires'')) 1030 = None"
    by (simp add: demo_keyid demo_timestamps)
  have b: "buildSignatureBase (demoRequest demoInput ''sig1=:010203cd:'') (components demoParsed)
        demoParsed demoInput = Inr demoBase"
    by (simp add: demo_base demo_components)
  have n: "ed25519_verify throwingLib (fromBase64 throwingLib ''010203cd'') (textEncode throwingLib demoBase)
        (fromHex (publicKey demoAgent)) = None"
    by (simp add: throwingLib_def)
  then have n': "ed25519_verify throwingLib (fromBase64 throwingLib ''010203cd'')
        (textEncode throwingLib demoBase) (fromHex (publicKey demoAgent)) \<noteq> Some True"
    by simp
  note w = internal_failure_not_distinguished [where reg = demoRegistry and L = throwingLib and now = 1030,
      OF demo_parsed demo_keyid(1) demo_agent t b n']
  have r: "verifySignature throwingLib demoRegistry 1030 (demoRequest demoInput ''sig1=:010203cd:'') =
      Reply \<lparr>status = 401, error = ''Invalid signature'', message = ''Signature verification failed''\<rparr>"
    using w [THEN conjunct1] by (simp add: reject_def)
  have x: "status \<lparr>status = 401, error = ''Invalid signature'', message = ''Signature verification failed''\<rparr> = 401
   \<and> error \<lparr>status = 401, error = ''Invalid signature'', message = ''Signature verification failed''\<rparr>
       \<in> set errorTexts"
    using w [THEN conjunct2] r by blast
  show ?thesis
    using demo_parsed demo_keyid(1) demo_agent t b n w [THEN conjunct1] x by blast
qed

subsection \<open>The signature base\<close>

text \<open>
  Claim C2, as stated, fails for a list with a component other than \<^verbatim>\<open>@authority\<close>
  and \<^verbatim>\<open>@path\<close>: the verifier emits no line for it. For the components
  \<^verbatim>\<open>@method\<close> and \<^verbatim>\<open>@path\<close> the base has two lines, not three.
\<close>

theorem signature_base_counterexample:
  "buildSignatureBase (demoRequest demoInput ''sig1=:010203cd:'') [''@method'', ''@path'']
     demoParsed demoInput = Inr pathOnlyBase
   \<and> length (filter (\<lambda>c. c = newline) pathOnlyBase) = 1"
proof -
  have "length (filter (\<lambda>c. c = newline) pathOnlyBase) = 1" by code_simp
  then show ?thesis using demo_base_other by simp
qed

text \<open>
  Claim C2, amended. For every component list the verifier's base has, in list order,
  one line \<^verbatim>\<open>"<id>": <value>\<close> for each component whose id is \<^verbatim>\<open>@authority\<close> or
  \<^verbatim>\<open>@path\<close> (no line for any other id), then the line \<^verbatim>\<open>"@signature-params"\<close>
  with the parameter string of the header, joined by single newlines, and it does not
  end in a newline; the signer's base is the three lines for its authority, path and
  parameter string. For the scenario's header the verifier's base is exactly the stated
  three-line string, which is also what the signer's three lines give for that
  parameter string; the parameter string the signer itself makes of the scenario's
  values carries the tag \<^verbatim>\<open>agent-payer-auth\<close>.
\<close>

theorem signature_base_construction:
  assumes "matchSigParams si = Some signatureParams"
  shows "buildSignatureBase req comps ps si =
           Inr (joinLines
                  (map (\<lambda>c. [dquote] @ c @ [dquote] @ '': '' @ resolvedValue req c) (filter supported comps) @
                   [[dquote] @ ''@signature-params'' @ [dquote] @ '': '' @ signatureParams]))
     \<and> (buildSignatureBase req comps ps si = Inr base \<longrightarrow> base \<noteq> [] \<and> last base \<noteq> newline)
     \<and> signatureBaseOf authority pth sp =
           ([dquote] @ ''@authority'' @ [dquote] @ '': '' @ authority) @ [newline] @
           ([dquote] @ ''@path'' @ [dquote] @ '': '' @ pth) @ [newline] @
           ([dquote] @ ''@signature-params'' @ [dquote] @ '': '' @ sp)
     \<and> buildSignatureBase (demoRequest demoInput sg) (components demoParsed) demoParsed demoInput =
           Inr demoBase
     \<and> signatureBaseOf ''localhost:8000'' ''/api/products?q=laptop'' demoParams = demoBase
     \<and> signatureParamsOf 1000 1060 ''agent-42'' ''ab12'' = payerParams"
proof -
  let ?line = "[dquote] @ ''@signature-params'' @ [dquote] @ '': '' @ signatureParams"
  let ?ls = "map (\<lambda>c. [dquote] @ c @ [dquote] @ '': '' @ resolvedValue req c) (filter supported comps)"
  have a: "buildSignatureBase req comps ps si = Inr (joinLines (?ls @ [?line]))"
    using assms by (simp add: buildSignatureBase_def component_lines_filter)
  have sp: "signatureParams \<noteq> []" "\<forall>c\<in>set signatureParams. \<not> isLineTerminator c"
    using matchSigParams_Some [OF assms] by simp_all
  have "last ?line = last signatureParams"
    using sp(1) by simp
  moreover have "last signatureParams \<in> set signatureParams"
    using sp(1) by simp
  ultimately have "last ?line \<noteq> newline"
    using sp(2) by (auto simp: isLineTerminator_def newline_def)
  moreover have "?line \<noteq> []" by simp
  ultimately have b: "joinLines (?ls @ [?line]) \<noteq> [] \<and> last (joinLines (?ls @ [?line])) \<noteq> newline"
    using joinLines_last [of ?line ?ls] by simp
  have c: "signatureBaseOf authority pth sp =
           ([dquote] @ ''@authority'' @ [dquote] @ '': '' @ authority) @ [newline] @
           ([dquote] @ ''@path'' @ [dquote] @ '': '' @ pth) @ [newline] @
           ([dquote] @ ''@signature-params'' @ [dquote] @ '': '' @ sp)"
    by (simp add: signatureBaseOf_def)
  show ?thesis
    using a b c demo_base [of sg demoParsed] demo_components signer_base_demo signer_params
    by auto
qed

theorem signature_base_construction_witness:
  "matchSigParams demoInput = Some demoParams
   \<and> filter supported [''@path'', ''@method'', ''@authority''] = [''@path'', ''@authority'']
   \<and> buildSignatureBase (demoRequest demoInput ''sig1=:010203cd:'') [''@path'', ''@method'', ''@authority'']
        demoParsed demoInput =
       Inr (joinLines
              [[dquote] @ ''@path'' @ [dquote] @ '': '' @ ''/api/products?q=laptop'',
               [dquote] @ ''@authority'' @ [dquote] @ '': '' @ ''localhost:8000'',
               [dquote] @ ''@signature-params'' @ [dquote] @ '': '' @ demoParams])
   \<and> buildSignatureBase (demoRequest demoInput ''sig1=:010203cd:'') (components demoParsed)
        demoParsed demoInput = Inr demoBase
   \<and> demoBase \<noteq> [] \<and> last demoBase \<noteq> newline"
proof -
  note w = signature_base_construction [OF demo_sig_params,
      where req = "demoRequest demoInput ''sig1=:010203cd:''" and ps = demoParsed
        and sg = "''sig1=:010203cd:''"]
  have f: "filter supported [''@path'', ''@method'', ''@authority''] = [''@path'', ''@authority'']"
    by (simp add: supported_def)
  have r: "resolvedValue (demoRequest demoInput ''sig1=:010203cd:'') ''@path'' = ''/api/products?q=laptop''"
    "resolvedValue (demoRequest demoInput ''sig1=:010203cd:'') ''@authority'' = ''localhost:8000''"
    by (simp_all add: resolvedValue_def demoRequest_def truthy_def)
  have b1: "buildSignatureBase (demoRequest demoInput ''sig1=:010203cd:'') [''@path'', ''@method'', ''@authority'']
        demoParsed demoInput =
       Inr (joinLines
              [[dquote] @ ''@path'' @ [dquote] @ '': '' @ ''/api/products?q=laptop'',
               [dquote] @ ''@authority'' @ [dquote] @ '': '' @ ''localhost:8000'',
               [dquote] @ ''@signature-params'' @ [dquote] @ '': '' @ demoParams])"
    using w [where comps = "[''@path'', ''@method'', ''@authority'']", THEN conjunct1]
    by (simp add: supported_def r)
  have b2: "buildSignatureBase (demoRequest demoInput ''sig1=:010203cd:'') (components demoParsed)
        demoParsed demoInput = Inr demoBase"
    using w [THEN conjunct2, THEN conjunct2, THEN conjunct2, THEN conjunct1] .
  have b3: "demoBase \<noteq> [] \<and> last demoBase \<noteq> newline"
    using w [where comps = "components demoParsed" and base = demoBase, THEN conjunct2, THEN conjunct1] b2
    by blast
  show ?thesis
    using demo_sig_params f b1 b2 b3 by blast
qed

subsection \<open>Signing and verifying\<close>

text \<open>
  Claim C1, as stated, fails: the signer writes the key identifier between double quotes
  without escaping it, and the verifier's pattern for a quoted value stops at the first
  double quote. For the key identifier \<^verbatim>\<open>a"b\<close>, registered under that name, the
  verifier looks up \<^verbatim>\<open>a\<close> and answers "Unknown agent".
\<close>

theorem round_trip_counterexample:
  "generateSignature demoLib 1000 [0xab, 0x12] ''localhost:8000'' ''/api/products?q=laptop'' quotedKeyId
     (fromHex (privateKey (generateKeypair demoLib [1, 2, 3]))) =
     Some \<lparr>Signature_Input = ''sig1='' @ signatureParamsOf 1000 1060 quotedKeyId ''ab12'',
           Signature = ''sig1=:010203c6:'', Signature_Agent = ''claude-desktop-agent''\<rparr>
   \<and> fst (registerAgent Map.empty quotedKeyId ''Demo Agent''
            (publicKeyHex (generateKeypair demoLib [1, 2, 3])) None ''2024-01-01T00:00:00.000Z'') quotedKeyId =
       Some demoAgent
   \<and> verifySignature demoLib
        (fst (registerAgent Map.empty quotedKeyId ''Demo Agent''
               (publicKeyHex (generateKeypair demoLib [1, 2, 3])) None ''2024-01-01T00:00:00.000Z''))
        1030
        (demoRequest (''sig1='' @ signatureParamsOf 1000 1060 quotedKeyId ''ab12'') ''sig1=:010203c6:'') =
       reject ''Unknown agent''
         (''Agent with keyid '' @ [dquote] @ ''a'' @ [dquote] @ '' not found in registry'')"
proof -
  have g: "generateSignature demoLib 1000 [0xab, 0x12] ''localhost:8000'' ''/api/products?q=laptop'' quotedKeyId
     (fromHex (privateKey (generateKeypair demoLib [1, 2, 3]))) =
     Some \<lparr>Signature_Input = ''sig1='' @ signatureParamsOf 1000 1060 quotedKeyId ''ab12'',
           Signature = ''sig1=:010203c6:'', Signature_Agent = ''claude-desktop-agent''\<rparr>"
    by code_simp
  have r: "fst (registerAgent Map.empty quotedKeyId ''Demo Agent''
            (publicKeyHex (generateKeypair demoLib [1, 2, 3])) None ''2024-01-01T00:00:00.000Z'') quotedKeyId =
       Some demoAgent"
    by code_simp
  have v: "verifySignature demoLib
        (fst (registerAgent Map.empty quotedKeyId ''Demo Agent''
               (publicKeyHex (generateKeypair demoLib [1, 2, 3])) None ''2024-01-01T00:00:00.000Z''))
        1030
        (demoRequest (''sig1='' @ signatureParamsOf 1000 1060 quotedKeyId ''ab12'') ''sig1=:010203c6:'') =
       reject ''Unknown agent''
         (''Agent with keyid '' @ [dquote] @ ''a'' @ [dquote] @ '' not found in registry'')"
    by code_simp
  show ?thesis using g r v by blast
qed

text \<open>
  Claim C1, amended. Let authority, path and key identifier be strings of code units
  up to \<open>0xFF\<close> (the strings of this model). Let the key identifier have no double
  quote, no line feed or carriage return and no white space at either end, the authority
  be non-empty and the signer's clock positive. Let the key pair come from \<^verbatim>\<open>generateKeypair\<close>, its public
  key be registered under the key identifier, and the libraries behave: signing the
  base succeeds, the Base64 text of the signature is non-empty and has no colon, and
  verification accepts what Base64 decoding gives back of it, for the same message,
  under the public key of the secret. Then a request that is not the registration
  request, whose host is the authority and whose URL is the path, carrying the headers
  of \<^verbatim>\<open>generateSignature\<close>, is accepted at any clock reading from \<open>created\<close> to
  \<open>expires\<close>, with the key identifier and the registered name attached.
\<close>

theorem sign_verify_round_trip:
  assumes "dquote \<notin> set keyId" and "CHR 0x0A \<notin> set keyId" and "CHR 0x0D \<notin> set keyId"
    and "trim keyId = keyId"
    and "authority \<noteq> []"
    and "0 < clock"
    and "kp = generateKeypair L secret"
    and "signatureBase =
           signatureBaseOf authority pth (signatureParamsOf clock (clock + 60) keyId (toHex rnd))"
    and "ed25519_sign L (textEncode L signatureBase) secret = Some sg"
    and "toBase64 L sg \<noteq> []" and "CHR '':'' \<notin> set (toBase64 L sg)"
    and "ed25519_verify L (fromBase64 L (toBase64 L sg)) (textEncode L signatureBase)
           (ed25519_getPublicKey L secret) = Some True"
    and "generateSignature L clock rnd authority pth keyId (fromHex (privateKey kp)) = Some hs"
    and "reg keyId = Some agent" and "publicKey agent = publicKeyHex kp"
    and "\<not> (path req = ''/api/registry/register'' \<and> reqMethod req = ''POST'')"
    and "headers req ''host'' = Some authority"
    and "originalUrl req = pth" and "url req = pth"
    and "headers req ''signature-input'' = Some (Signature_Input hs)"
    and "headers req ''signature'' = Some (Signature hs)"
    and "clock \<le> now" and "now \<le> clock + 60"
  shows "verifySignature L reg now req = Next (Some \<lparr>agent_id = keyId, agent_name = name agent\<rparr>)"
proof -
  let ?P = "signatureParamsOf clock (clock + 60) keyId (toHex rnd)"
  let ?ps = "\<lparr>components = [''@authority'', ''@path''],
       params = [(''created'', numToString clock), (''expires'', numToString (clock + 60)),
                 (''keyid'', keyId), (''alg'', ''ed25519''), (''nonce'', toHex rnd),
                 (''tag'', ''agent-payer-auth'')]\<rparr>"
  have e: "0 < clock + 60" using assms(6) by simp
  have lt: "\<forall>x\<in>set keyId. \<not> isLineTerminator x"
    using assms(2,3) by (auto simp: isLineTerminator_def)
  have sk: "fromHex (privateKey kp) = secret"
    by (simp add: assms(7) generateKeypair_def fromHex_toHex)
  have hs: "Signature_Input hs = ''sig1='' @ ?P" "Signature hs = ''sig1=:'' @ toBase64 L sg @ '':''"
    using assms(13) assms(9)
    by (auto simp: generateSignature_def Let_def sk assms(8) [symmetric] split: option.splits)
  have pne: "?P \<noteq> []" by (simp add: signatureParamsOf_def)
  have plt: "\<forall>x\<in>set ?P. \<not> isLineTerminator x"
    using assms(6) e lt by (rule generated_no_terminator)
  have ps: "parseSignatureInput (Signature_Input hs) = Inr ?ps"
    unfolding hs using assms(6) e assms(1) lt assms(4) by (rule parseSignatureInput_generated)
  have sv: "parseSignature (Signature hs) = Inr (toBase64 L sg)"
    unfolding hs using assms(10,11) by (rule parseSignature_generated)
  have ne: "Signature_Input hs \<noteq> []" "Signature hs \<noteq> []"
    by (simp_all add: hs)
  have ph: "parsedHeaders req = Some (Signature_Input hs, ?ps, toBase64 L sg)"
    using assms(16) by (simp add: parsedHeaders_def assms(20,21) ps sv ne)
  have ts: "checkTimestamps (parseInt (map_of (params ?ps) ''created''))
      (parseInt (map_of (params ?ps) ''expires'')) now = None"
    using assms(6,22,23) e
    by (simp add: parseInt_numToString checkTimestamps_def)
  have sp: "matchSigParams (Signature_Input hs) = Some ?P"
    unfolding hs using pne plt by (rule matchSigParams_generated)
  have bb: "buildSignatureBase req (components ?ps) ?ps (Signature_Input hs) = Inr signatureBase"
    using assms(5)
    by (simp add: buildSignatureBase_def sp componentLine_def truthy_def assms(17,18,19) assms(8)
          signatureBaseOf_def)
  have ve: "verifyEd25519Signature L signatureBase (toBase64 L sg) (publicKey agent)"
    by (simp add: verifyEd25519Signature_def assms(15) assms(7) generateKeypair_def fromHex_toHex
          assms(12))
  have k: "map_of (params ?ps) ''keyid'' = Some keyId" by simp
  show ?thesis
    using verifySignature_crypto [where reg = reg and L = L, OF ph k assms(14) ts bb] ve
    by simp
qed

theorem sign_verify_round_trip_witness:
  "dquote \<notin> set ''agent-42'' \<and> CHR 0x0A \<notin> set ''agent-42'' \<and> CHR 0x0D \<notin> set ''agent-42''
   \<and> trim ''agent-42'' = ''agent-42''
   \<and> ed25519_sign demoLib
        (textEncode demoLib
           (signatureBaseOf ''localhost:8000'' ''/api/products?q=laptop''
              (signatureParamsOf 1000 (1000 + 60) ''agent-42'' (toHex [0xab, 0x12]))))
        [1, 2, 3] = Some [1, 2, 3, 0xcb]
   \<and> toBase64 demoLib [1, 2, 3, 0xcb] = ''010203cb''
   \<and> ed25519_verify demoLib (fromBase64 demoLib (toBase64 demoLib [1, 2, 3, 0xcb]))
        (textEncode demoLib
           (signatureBaseOf ''localhost:8000'' ''/api/products?q=laptop''
              (signatureParamsOf 1000 (1000 + 60) ''agent-42'' (toHex [0xab, 0x12]))))
        (ed25519_getPublicKey demoLib [1, 2, 3]) = Some True
   \<and> generateSignature demoLib 1000 [0xab, 0x12] ''localhost:8000'' ''/api/products?q=laptop'' ''agent-42''
        (fromHex (privateKey (generateKeypair demoLib [1, 2, 3]))) =
       Some \<lparr>Signature_Input = ''sig1='' @ payerParams, Signature = ''sig1=:010203cb:'',
             Signature_Agent = ''claude-desktop-agent''\<rparr>
   \<and> demoRegistry ''agent-42'' = Some demoAgent
   \<and> publicKey demoAgent = publicKeyHex (generateKeypair demoLib [1, 2, 3])
   \<and> verifySignature demoLib demoRegistry 1030
        (demoRequest (''sig1='' @ payerParams) ''sig1=:010203cb:'') =
       Next (Some \<lparr>agent_id = ''agent-42'', agent_name = ''Demo Agent''\<rparr>)"
proof -
  let ?hs = "\<lparr>Signature_Input = ''sig1='' @ payerParams, Signature = ''sig1=:010203cb:'',
             Signature_Agent = ''claude-desktop-agent''\<rparr>"
  let ?rq = "demoRequest (''sig1='' @ payerParams) ''sig1=:010203cb:''"
  have k: "dquote \<notin> set ''agent-42''" "CHR 0x0A \<notin> set ''agent-42''" "CHR 0x0D \<notin> set ''agent-42''"
    "trim ''agent-42'' = ''agent-42''"
    by (simp_all add: dquote_def trim_def isWhiteSpace_def)
  have a: "''localhost:8000'' \<noteq> []" by simp
  have c: "(0::int) < 1000" by simp
  have s: "ed25519_sign demoLib
        (textEncode demoLib
           (signatureBaseOf ''localhost:8000'' ''/api/products?q=laptop''
              (signatureParamsOf 1000 (1000 + 60) ''agent-42'' (toHex [0xab, 0x12]))))
        [1, 2, 3] = Some [1, 2, 3, 0xcb]"
    by code_simp
  have b: "toBase64 demoLib [1, 2, 3, 0xcb] = ''010203cb''"
    by code_simp
  have b1: "toBase64 demoLib [1, 2, 3, 0xcb] \<noteq> []" "CHR '':'' \<notin> set (toBase64 demoLib [1, 2, 3, 0xcb])"
    by (simp_all add: b)
  have v: "ed25519_verify demoLib (fromBase64 demoLib (toBase64 demoLib [1, 2, 3, 0xcb]))
        (textEncode demoLib
           (signatureBaseOf ''localhost:8000'' ''/api/products?q=laptop''
              (signatureParamsOf 1000 (1000 + 60) ''agent-42'' (toHex [0xab, 0x12]))))
        (ed25519_getPublicKey demoLib [1, 2, 3]) = Some True"
    by code_simp
  have g: "generateSignature demoLib 1000 [0xab, 0x12] ''localhost:8000'' ''/api/products?q=laptop'' ''agent-42''
        (fromHex (privateKey (generateKeypair demoLib [1, 2, 3]))) = Some ?hs"
    by code_simp
  have p: "publicKey demoAgent = publicKeyHex (generateKeypair demoLib [1, 2, 3])"
    by code_simp
  have r: "\<not> (path ?rq = ''/api/registry/register'' \<and> reqMethod ?rq = ''POST'')"
    "headers ?rq ''host'' = Some ''localhost:8000''"
    "originalUrl ?rq = ''/api/products?q=laptop''" "url ?rq = ''/api/products?q=laptop''"
    "headers ?rq ''signature-input'' = Some (Signature_Input ?hs)"
    "headers ?rq ''signature'' = Some (Signature ?hs)"
    by (simp_all add: demoRequest_def)
  have n: "(1000::int) \<le> 1030" "(1030::int) \<le> 1000 + 60" by simp_all
  note w = sign_verify_round_trip [where L = demoLib and reg = demoRegistry,
      OF k a c refl refl s b1 v g demo_agent p r n]
  have w': "verifySignature demoLib demoRegistry 1030 ?rq =
       Next (Some \<lparr>agent_id = ''agent-42'', agent_name = ''Demo Agent''\<rparr>)"
    using w by (simp add: demoAgent_def)
  show ?thesis
    using k s b v g demo_agent p w' by blast
qed

end
